theory Spec2Isabelle
  imports Main "HOL-Library.Word"
begin

unbundle bit_operations_syntax

section \<open>Values of the host language\<close>

text \<open>
  A JavaScript string is a \<open>string\<close>: one \<open>char\<close> per code unit (code units above
  255 are outside the model). A byte of a \<open>Uint8Array\<close> or of the SDK's \<open>number[]\<close>
  script buffers is an \<open>8 word\<close>. An element of the resolver's own \<open>number[]\<close> is a
  \<open>jsnum\<close>: \<open>Some n\<close> for an integer, \<open>None\<close> for \<open>NaN\<close> and for \<open>undefined\<close>
  (every use below compares it, converts it with ToInt32 or adds it, and both behave
  alike there). \<open>-0\<close> is identified with \<open>0\<close>.
\<close>

type_synonym byte = "8 word"
type_synonym jsnum = "int option"

text \<open>\<open>TextDecoder.decode\<close> and the SDK's \<open>Utils.toArray(s, 'utf8')\<close> belong to the
  platform and to the SDK. The functions below take them as the parameters \<open>dec\<close> and
  \<open>enc\<close>. On 7-bit strings both are the identity on code units; that restriction is
  \<open>asciiDecode\<close> and \<open>asciiBytes\<close>, used to evaluate the functions on concrete scripts.\<close>

definition asciiBytes :: "string \<Rightarrow> byte list" where
  "asciiBytes s = map (\<lambda>c. of_nat (of_char c)) s"

definition asciiDecode :: "byte list \<Rightarrow> string" where
  "asciiDecode bs = map (\<lambda>b. char_of (unat b)) bs"

definition BSVDID_MARKER :: string where
  "BSVDID_MARKER = ''BSVDID''"

text \<open>A natural number in a template literal: its decimal digits.\<close>

fun decimal :: "nat \<Rightarrow> string" where
  "decimal n =
     (if n < 10 then [char_of (48 + n)]
      else decimal (n div 10) @ [char_of (48 + n mod 10)])"

declare decimal.simps [simp del]

section \<open>server/did-resolver.ts: the raw OP_RETURN parser\<close>

subsection \<open>\<open>parseInt(s, 16)\<close> and \<open>hexToBytes\<close>\<close>

definition isWhiteSpace :: "char \<Rightarrow> bool" where
  "isWhiteSpace c = ((of_char c :: nat) \<in> {9, 10, 11, 12, 13, 32, 160})"

definition digitVal :: "char \<Rightarrow> nat option" where
  "digitVal c =
     (let n = (of_char c :: nat) in
      if 48 \<le> n \<and> n \<le> 57 then Some (n - 48)
      else if 97 \<le> n \<and> n \<le> 102 then Some (n - 87)
      else if 65 \<le> n \<and> n \<le> 70 then Some (n - 55)
      else None)"

fun stripSign :: "string \<Rightarrow> bool \<times> string" where
  "stripSign [] = (False, [])"
| "stripSign (c # r) =
     (if c = CHR ''-'' then (True, r)
      else if c = CHR ''+'' then (False, r)
      else (False, c # r))"

fun stripPrefix0x :: "string \<Rightarrow> string" where
  "stripPrefix0x (a # b # r) =
     (if a = CHR ''0'' \<and> (b = CHR ''x'' \<or> b = CHR ''X'') then r else a # b # r)"
| "stripPrefix0x s = s"

text \<open>\<open>parseInt(s, 16)\<close>: leading white space is skipped, a sign and a \<open>0x\<close> prefix are
  accepted, the longest prefix of hexadecimal digits is the value, and no digit at all is
  \<open>NaN\<close>. (The rounding of values beyond \<open>2 ^ 53\<close> does not arise: \<open>hexToBytes\<close> passes
  at most two characters.)\<close>

definition parseInt16 :: "string \<Rightarrow> jsnum" where
  "parseInt16 s =
     (let (neg, t) = stripSign (dropWhile isWhiteSpace s);
          ds = takeWhile (\<lambda>c. digitVal c \<noteq> None) (stripPrefix0x t)
      in if ds = [] then None
         else Some ((if neg then - 1 else 1) *
                    int (foldl (\<lambda>a c. 16 * a + the (digitVal c)) 0 ds)))"

fun hexToBytes :: "string \<Rightarrow> jsnum list" where
  "hexToBytes [] = []"
| "hexToBytes [a] = [parseInt16 [a]]"
| "hexToBytes (a # b # r) = parseInt16 [a, b] # hexToBytes r"

subsection \<open>Array access, \<open>slice\<close>, ToInt32 and \<open>Uint8Array\<close>\<close>

text \<open>\<open>bytes[i]\<close>: \<open>undefined\<close> outside the array (also at a negative index).\<close>

definition js_index :: "jsnum list \<Rightarrow> int \<Rightarrow> jsnum" where
  "js_index bytes i = (if 0 \<le> i \<and> i < int (length bytes) then bytes ! nat i else None)"

text \<open>\<open>Array.prototype.slice(start, end)\<close> on integers: a negative bound counts from the
  end of the array, both bounds are clamped to the array, and an end at or before the
  start gives the empty array.\<close>

definition js_slice :: "'a list \<Rightarrow> int \<Rightarrow> int \<Rightarrow> 'a list" where
  "js_slice xs start end =
     (let n = int (length xs);
          k = (if start < 0 then max (n + start) 0 else min start n);
          final = (if end < 0 then max (n + end) 0 else min end n)
      in take (nat (final - k)) (drop (nat k) xs))"

definition toInt32 :: "jsnum \<Rightarrow> 32 word" where
  "toInt32 x = (case x of None \<Rightarrow> 0 | Some n \<Rightarrow> word_of_int n)"

definition toUint8 :: "jsnum \<Rightarrow> byte" where
  "toUint8 x = (case x of None \<Rightarrow> 0 | Some n \<Rightarrow> word_of_int n)"

subsection \<open>\<open>parseOpReturnSegments\<close>\<close>

text \<open>The first loop: the position after the first \<open>0x6a\<close>, or the length of the array.\<close>

fun skipToOpReturn :: "jsnum list \<Rightarrow> nat \<Rightarrow> nat" where
  "skipToOpReturn [] i = i"
| "skipToOpReturn (b # bs) i = (if b = Some 106 then i + 1 else skipToOpReturn bs (i + 1))"

text \<open>The head of one iteration of the second loop, after \<open>op\<close> has been read and \<open>i\<close>
  advanced: the push length and the position of the data, or \<open>None\<close> where the loop
  \<open>break\<close>s. The length is a \<open>jsnum\<close>: after \<open>0x4c\<close> it is the next array element itself.
  The bitwise operators work on 32-bit signed integers.\<close>

definition readLen :: "jsnum list \<Rightarrow> int \<Rightarrow> int \<Rightarrow> (jsnum \<times> int) option" where
  "readLen bytes op i =
     (if 1 \<le> op \<and> op \<le> 75 then Some (Some op, i)
      else if op = 76 then
        (if i \<ge> int (length bytes) then None else Some (js_index bytes i, i + 1))
      else if op = 77 then
        (if i + 1 \<ge> int (length bytes) then None
         else Some (Some (sint (toInt32 (js_index bytes i)
                                OR push_bit 8 (toInt32 (js_index bytes (i + 1))))), i + 2))
      else if op = 78 then
        (if i + 3 \<ge> int (length bytes) then None
         else Some (Some (sint (((toInt32 (js_index bytes i)
                                  OR push_bit 8 (toInt32 (js_index bytes (i + 1))))
                                 OR push_bit 16 (toInt32 (js_index bytes (i + 2))))
                                OR push_bit 24 (toInt32 (js_index bytes (i + 3))))), i + 4))
      else None)"

text \<open>The second loop. It has no bound of its own, so it is a partial function: \<open>None\<close>
  is the loop that never exits. A \<open>NaN\<close> length sets \<open>i\<close> to \<open>NaN\<close>: the empty slice is
  pushed and the loop condition fails.\<close>

partial_function (option) readPushes ::
  "(byte list \<Rightarrow> string) \<Rightarrow> jsnum list \<Rightarrow> int \<Rightarrow> string list \<Rightarrow> string list option"
where
  "readPushes dec bytes i segments =
     (if i < int (length bytes) then
        (case js_index bytes i of
           None \<Rightarrow> Some segments
         | Some op \<Rightarrow>
            (case readLen bytes op (i + 1) of
               None \<Rightarrow> Some segments
             | Some (len, j) \<Rightarrow>
                (case len of
                   None \<Rightarrow> Some (segments @ [dec []])
                 | Some l \<Rightarrow>
                    if j + l > int (length bytes) then Some segments
                    else readPushes dec bytes (j + l)
                           (segments @ [dec (map toUint8 (js_slice bytes j (j + l)))]))))
      else Some segments)"

definition resolver_parseOpReturnSegments ::
  "(byte list \<Rightarrow> string) \<Rightarrow> string \<Rightarrow> string list option" where
  "resolver_parseOpReturnSegments dec hexScript =
     (let bytes = hexToBytes hexScript;
          i = skipToOpReturn bytes 0
      in if i \<ge> length bytes then Some [] else readPushes dec bytes (int i) [])"

section \<open>The SDK's script builder, as \<open>buildOpReturn\<close> uses it\<close>

text \<open>\<open>Script\<close>, \<open>OP\<close> and \<open>Utils.toHex\<close> come from the SDK, which is not part of the
  repository. A script is its list of chunks (an opcode and, for a push, its data);
  \<open>writeBin\<close> chooses the smallest push opcode for the data, as the standard script
  encoding does, and refuses data of \<open>2 ^ 32\<close> bytes or more (\<open>None\<close>: it throws).\<close>

datatype chunk = Chunk (cop: nat) (cdata: "byte list option")

definition OP_FALSE :: nat where "OP_FALSE = 0"
definition OP_PUSHDATA1 :: nat where "OP_PUSHDATA1 = 76"
definition OP_PUSHDATA2 :: nat where "OP_PUSHDATA2 = 77"
definition OP_PUSHDATA4 :: nat where "OP_PUSHDATA4 = 78"
definition OP_RETURN :: nat where "OP_RETURN = 106"

definition writeOpCode :: "nat \<Rightarrow> chunk list \<Rightarrow> chunk list" where
  "writeOpCode opc chunks = chunks @ [Chunk opc None]"

definition writeBin :: "byte list \<Rightarrow> chunk list \<Rightarrow> chunk list option" where
  "writeBin bin chunks =
     (let n = length bin in
      if 0 < n \<and> n < OP_PUSHDATA1 then Some (chunks @ [Chunk n (Some bin)])
      else if n = 0 then Some (chunks @ [Chunk OP_FALSE None])
      else if n < 2 ^ 8 then Some (chunks @ [Chunk OP_PUSHDATA1 (Some bin)])
      else if n < 2 ^ 16 then Some (chunks @ [Chunk OP_PUSHDATA2 (Some bin)])
      else if n < 2 ^ 32 then Some (chunks @ [Chunk OP_PUSHDATA4 (Some bin)])
      else None)"

definition writeUInt16LE :: "nat \<Rightarrow> byte list" where
  "writeUInt16LE n = [of_nat n, of_nat (n div 256)]"

definition writeUInt32LE :: "nat \<Rightarrow> byte list" where
  "writeUInt32LE n = [of_nat n, of_nat (n div 256), of_nat (n div 65536), of_nat (n div 16777216)]"

fun chunkBytes :: "chunk \<Rightarrow> byte list" where
  "chunkBytes (Chunk opc None) = [of_nat opc]"
| "chunkBytes (Chunk opc (Some d)) =
     of_nat opc #
     (if opc < OP_PUSHDATA1 then d
      else if opc = OP_PUSHDATA1 then of_nat (length d) # d
      else if opc = OP_PUSHDATA2 then writeUInt16LE (length d) @ d
      else if opc = OP_PUSHDATA4 then writeUInt32LE (length d) @ d
      else [])"

definition toBinary :: "chunk list \<Rightarrow> byte list" where
  "toBinary chunks = concat (map chunkBytes chunks)"

definition hexDigit :: "nat \<Rightarrow> char" where
  "hexDigit n = ''0123456789abcdef'' ! n"

definition toHex :: "byte list \<Rightarrow> string" where
  "toHex bs = concat (map (\<lambda>b. [hexDigit (unat b div 16), hexDigit (unat b mod 16)]) bs)"

section \<open>modules/did.ts: \<open>buildOpReturn\<close>\<close>

text \<open>\<open>OP_FALSE OP_RETURN\<close>, then the marker, the identity code and the payload, one push
  each. \<open>None\<close> where \<open>writeBin\<close> throws.\<close>

definition buildOpReturn :: "(string \<Rightarrow> byte list) \<Rightarrow> string \<Rightarrow> string \<Rightarrow> chunk list option" where
  "buildOpReturn enc identityCode payload =
     Option.bind (writeBin (enc BSVDID_MARKER) (writeOpCode OP_RETURN (writeOpCode OP_FALSE [])))
       (\<lambda>s1. Option.bind (writeBin (enc identityCode) s1)
         (\<lambda>s2. writeBin (enc payload) s2))"

text \<open>\<open>buildOpReturn(identityCode, payload).toHex()\<close>.\<close>

definition buildOpReturnHex :: "(string \<Rightarrow> byte list) \<Rightarrow> string \<Rightarrow> string \<Rightarrow> string option" where
  "buildOpReturnHex enc identityCode payload =
     map_option (\<lambda>s. toHex (toBinary s)) (buildOpReturn enc identityCode payload)"

section \<open>modules/did.ts: \<open>parseOpReturnSegments\<close>, over the SDK's chunk parser\<close>

text \<open>\<open>Script.fromHex\<close> and \<open>Script.fromBinary\<close> are the SDK's, a library outside the
  repository; they are written down here as the library behaves. \<open>fromHex\<close> rejects
  (throws on) a string of odd length or with a character that is no hexadecimal digit.
  \<open>fromBinary\<close> reads one chunk per opcode, a push opcode taking its data with it, and
  counts the conditional blocks it is in (\<open>OP_IF\<close>, \<open>OP_NOTIF\<close>, \<open>OP_VERIF\<close> and
  \<open>OP_VERNOTIF\<close> open one, \<open>OP_ENDIF\<close> closes one). At an \<open>OP_RETURN\<close> outside every
  conditional block it stops: the rest of the script, whatever it is, becomes the data of
  that one chunk. A push cut short by the end of the script keeps the bytes that are
  there.\<close>

fun hexPairs :: "string \<Rightarrow> byte list" where
  "hexPairs (a # b # r) = of_nat (16 * the (digitVal a) + the (digitVal b)) # hexPairs r"
| "hexPairs s = []"

definition readLE :: "byte list \<Rightarrow> nat" where
  "readLE bs = foldr (\<lambda>b acc. unat b + 256 * acc) bs 0"

definition OP_IF :: nat where "OP_IF = 99"
definition OP_NOTIF :: nat where "OP_NOTIF = 100"
definition OP_VERIF :: nat where "OP_VERIF = 101"
definition OP_VERNOTIF :: nat where "OP_VERNOTIF = 102"
definition OP_ENDIF :: nat where "OP_ENDIF = 104"

definition conditional :: "nat \<Rightarrow> int \<Rightarrow> int" where
  "conditional opc inConditionalBlock =
     (if opc = OP_IF \<or> opc = OP_NOTIF \<or> opc = OP_VERIF \<or> opc = OP_VERNOTIF
      then inConditionalBlock + 1
      else if opc = OP_ENDIF then inConditionalBlock - 1
      else inConditionalBlock)"

function fromBinary :: "int \<Rightarrow> byte list \<Rightarrow> chunk list" where
  "fromBinary inConditionalBlock [] = []"
| "fromBinary inConditionalBlock (b # rest) =
     (let opc = unat b in
      if opc = OP_RETURN \<and> inConditionalBlock = 0 then [Chunk opc (Some rest)]
      else
       (let depth = conditional opc inConditionalBlock in
        if 0 < opc \<and> opc < OP_PUSHDATA1 then
          Chunk opc (Some (take opc rest)) # fromBinary depth (drop opc rest)
        else if opc = OP_PUSHDATA1 then
          Chunk opc (Some (take (readLE (take 1 rest)) (drop 1 rest)))
            # fromBinary depth (drop (readLE (take 1 rest)) (drop 1 rest))
        else if opc = OP_PUSHDATA2 then
          Chunk opc (Some (take (readLE (take 2 rest)) (drop 2 rest)))
            # fromBinary depth (drop (readLE (take 2 rest)) (drop 2 rest))
        else if opc = OP_PUSHDATA4 then
          Chunk opc (Some (take (readLE (take 4 rest)) (drop 4 rest)))
            # fromBinary depth (drop (readLE (take 4 rest)) (drop 4 rest))
        else Chunk opc None # fromBinary depth rest))"
  by pat_completeness auto
termination
  by (relation "measure (\<lambda>(inConditionalBlock, bytes). length bytes)") auto

definition fromHex :: "string \<Rightarrow> chunk list option" where
  "fromHex hex =
     (if hex = [] then Some []
      else if odd (length hex) then None
      else if \<not> list_all (\<lambda>c. digitVal c \<noteq> None) hex then None
      else Some (fromBinary 0 (hexPairs hex)))"

text \<open>The index after the first chunk whose opcode is \<open>OP_RETURN\<close>; then the data of
  every later chunk that has any (an empty array counts: it is an object).\<close>

fun findOpReturn :: "chunk list \<Rightarrow> nat \<Rightarrow> nat option" where
  "findOpReturn [] i = None"
| "findOpReturn (c # cs) i = (if cop c = OP_RETURN then Some (i + 1) else findOpReturn cs (i + 1))"

fun chunkSegments :: "(byte list \<Rightarrow> string) \<Rightarrow> chunk list \<Rightarrow> string list" where
  "chunkSegments dec [] = []"
| "chunkSegments dec (c # cs) =
     (case cdata c of None \<Rightarrow> chunkSegments dec cs
      | Some d \<Rightarrow> dec d # chunkSegments dec cs)"

text \<open>A throw of \<open>Script.fromHex\<close> is caught and gives the empty list.\<close>

definition did_parseOpReturnSegments :: "(byte list \<Rightarrow> string) \<Rightarrow> string \<Rightarrow> string list" where
  "did_parseOpReturnSegments dec scriptHex =
     (case fromHex scriptHex of
        None \<Rightarrow> []
      | Some chunks \<Rightarrow>
         (case findOpReturn chunks 0 of
            None \<Rightarrow> []
          | Some startIdx \<Rightarrow> chunkSegments dec (drop startIdx chunks)))"

section \<open>The chain crawl\<close>

subsection \<open>The chain-indexing API and the platform\<close>

text \<open>The three endpoints of the indexing API, as the crawl reads them. The first argument
  is the hop at which the request is made, so the answers may change while the crawl
  runs. \<open>Threw\<close> is a rejected \<open>fetch\<close> or a body that is no JSON, \<open>NotOk\<close> a response
  whose \<open>ok\<close> is false. The spend endpoint answers with the spending txid (the empty
  string where the body has none), the history endpoint with pairs of \<open>tx_hash\<close> and
  \<open>height\<close> (0 where absent). The \<open>time\<close> of a transaction is a whole number of
  seconds, 0 where the body has none.\<close>

datatype 'a response = Threw | NotOk | Ok 'a

record txOutput =
  scriptHex :: "string option"
  addresses :: "string list"

record txData =
  time :: int
  vout :: "txOutput list"

record chainApi =
  fetchTx :: "nat \<Rightarrow> string \<Rightarrow> txData response"
  fetchSpend :: "nat \<Rightarrow> string \<Rightarrow> string response"
  fetchHistory :: "nat \<Rightarrow> string \<Rightarrow> (string \<times> int) list response"

text \<open>\<open>TextDecoder\<close>, \<open>JSON.parse\<close> (\<open>None\<close>: it throws) and the truthiness of a parsed
  value; \<open>'d\<close> is the type of parsed JSON values.\<close>

record 'd platform =
  textDecode :: "byte list \<Rightarrow> string"
  jsonParse :: "string \<Rightarrow> 'd option"
  truthy :: "'d \<Rightarrow> bool"

record 'd resolution =
  didDocument :: "'d option"
  metaCreated :: "int option"
  metaUpdated :: "int option"
  metaDeactivated :: bool
  metaVersionId :: "string option"
  resError :: "string option"
  resMessage :: "string option"

record 'd crawl =
  currentTxid :: string
  lastDocument :: "'d option"
  lastDocTxid :: "string option"
  created :: "int option"
  updated :: "int option"
  foundIssuance :: bool
  visited :: "string list"

datatype 'd exit = Return "'d resolution" "'d crawl" | Break "'d crawl" | Throw "'d crawl"

fun exitState :: "'d exit \<Rightarrow> 'd crawl" where
  "exitState (Return r st) = st"
| "exitState (Break st) = st"
| "exitState (Throw st) = st"

subsection \<open>The parts both crawls share\<close>

definition notFound :: "'d resolution" where
  "notFound = \<lparr>didDocument = None, metaCreated = None, metaUpdated = None,
                metaDeactivated = False, metaVersionId = None,
                resError = Some ''notFound'', resMessage = Some ''DID not found on chain''\<rparr>"

definition initial :: "string \<Rightarrow> 'd crawl" where
  "initial txid = \<lparr>currentTxid = txid, lastDocument = None, lastDocTxid = None,
                    created = None, updated = None, foundIssuance = False, visited = []\<rparr>"

text \<open>\<open>txData.time ? new Date(txData.time * 1000).toISOString() : undefined\<close>. A date
  is valid up to \<open>8.64e15\<close> milliseconds from the epoch on either side; beyond that
  \<open>toISOString\<close> throws a \<open>RangeError\<close> (the outer \<open>None\<close>). The text written for a
  valid date is stood for by its number of seconds; \<open>undefined\<close> is the inner \<open>None\<close>.\<close>

definition timeOf :: "txData \<Rightarrow> int option option" where
  "timeOf tx =
     (if time tx = 0 then Some None
      else if \<bar>time tx * 1000\<bar> \<le> 8640000000000000 then Some (Some (time tx))
      else None)"

text \<open>\<open>if (!created) created = ...\<close>, outside every \<open>try\<close> of the loop: \<open>None\<close> where it
  throws.\<close>

definition noteCreated :: "txData \<Rightarrow> 'd crawl \<Rightarrow> 'd crawl option" where
  "noteCreated tx st =
     (if created st = None
      then (case timeOf tx of None \<Rightarrow> None | Some t \<Rightarrow> Some (st\<lparr>created := t\<rparr>))
      else Some st)"

definition revoked :: "'d crawl \<Rightarrow> 'd resolution" where
  "revoked st = \<lparr>didDocument = lastDocument st, metaCreated = created st,
                  metaUpdated = updated st, metaDeactivated = True,
                  metaVersionId = Some (currentTxid st), resError = None, resMessage = None\<rparr>"

text \<open>The payload of a transaction that is no revocation: \<open>2\<close> is skipped, \<open>1\<close> notes the
  issuance, anything else is kept as the document when it parses as JSON. The three
  assignments stand in one \<open>try\<close>: where the date is out of range the document and its
  txid have been assigned and \<open>updated\<close> keeps its value.\<close>

definition applyPayload :: "'d platform \<Rightarrow> txData \<Rightarrow> string \<Rightarrow> 'd crawl \<Rightarrow> 'd crawl" where
  "applyPayload pf tx payload st =
     (if payload = ''2'' then st
      else if payload = ''1'' then st\<lparr>foundIssuance := True\<rparr>
      else (case jsonParse pf payload of
              None \<Rightarrow> st
            | Some d \<Rightarrow> st\<lparr>lastDocument := Some d, lastDocTxid := Some (currentTxid st),
                           updated := (case timeOf tx of None \<Rightarrow> updated st | Some t \<Rightarrow> t)\<rparr>))"

definition out0Addr :: "txData \<Rightarrow> string" where
  "out0Addr tx = (case vout tx of [] \<Rightarrow> [] | v # _ \<Rightarrow> (case addresses v of [] \<Rightarrow> [] | a # _ \<Rightarrow> a))"

text \<open>The next hop, the empty string for none: the spend endpoint first, then the highest
  entry of the address history that has not been visited (the sort is stable).\<close>

definition nextHop :: "chainApi \<Rightarrow> nat \<Rightarrow> string list \<Rightarrow> string \<Rightarrow> txData \<Rightarrow> string" where
  "nextHop api hop seen cur tx =
     (let spent = (case fetchSpend api hop cur of Ok t \<Rightarrow> t | _ \<Rightarrow> []) in
      if spent \<noteq> [] then spent
      else if out0Addr tx = [] then []
      else (case fetchHistory api hop (out0Addr tx) of
              Ok history \<Rightarrow>
                (case sort_key (\<lambda>e. - snd e) (filter (\<lambda>e. fst e \<notin> set seen) history) of
                   [] \<Rightarrow> []
                 | c # _ \<Rightarrow> fst c)
            | _ \<Rightarrow> []))"

definition hasDocument :: "'d platform \<Rightarrow> 'd crawl \<Rightarrow> bool" where
  "hasDocument pf st = (case lastDocument st of None \<Rightarrow> False | Some d \<Rightarrow> truthy pf d)"

text \<open>What is returned once the loop has been left.\<close>

definition finish :: "'d platform \<Rightarrow> 'd crawl \<Rightarrow> 'd resolution" where
  "finish pf st =
     (if hasDocument pf st then
        \<lparr>didDocument = lastDocument st, metaCreated = created st, metaUpdated = updated st,
         metaDeactivated = False, metaVersionId = lastDocTxid st,
         resError = None, resMessage = None\<rparr>
      else if foundIssuance st then
        \<lparr>didDocument = None, metaCreated = created st, metaUpdated = None,
         metaDeactivated = False, metaVersionId = None,
         resError = Some ''notYetAvailable'',
         resMessage = Some ''DID issuance found on chain but document transaction has not propagated yet. Try again shortly.''\<rparr>
      else notFound)"

subsection \<open>modules/did.ts: \<open>_resolveViaWhatsOnChain\<close>\<close>

fun did_findSegments :: "(byte list \<Rightarrow> string) \<Rightarrow> txOutput list \<Rightarrow> string list" where
  "did_findSegments dec [] = []"
| "did_findSegments dec (v # vs) =
     (case scriptHex v of
        None \<Rightarrow> did_findSegments dec vs
      | Some hex \<Rightarrow>
         if hex = [] then did_findSegments dec vs
         else (let s = did_parseOpReturnSegments dec hex in
               if length s \<ge> 3 \<and> s ! 0 = BSVDID_MARKER then s
               else did_findSegments dec vs))"

function did_crawlLoop ::
  "'d platform \<Rightarrow> chainApi \<Rightarrow> nat \<Rightarrow> nat \<Rightarrow> 'd crawl \<Rightarrow> 'd exit" where
  "did_crawlLoop pf api maxHops hop st =
     (if hop < maxHops then
        (if currentTxid st \<in> set (visited st) then Break st
         else
           (let st1 = st\<lparr>visited := visited st @ [currentTxid st]\<rparr> in
            case fetchTx api hop (currentTxid st1) of
              Threw \<Rightarrow> Throw st1
            | NotOk \<Rightarrow> Return notFound st1
            | Ok tx \<Rightarrow>
               (case noteCreated tx st1 of
                  None \<Rightarrow> Throw st1
                | Some st2 \<Rightarrow>
                   (let segments = did_findSegments (textDecode pf) (vout tx)
                    in if length segments \<ge> 3 \<and> segments ! 2 = ''3''
                       then Return (revoked st2) st2
                       else
                         (let st3 = (if length segments \<ge> 3
                                     then applyPayload pf tx (segments ! 2) st2 else st2);
                              nextTxid = nextHop api hop (visited st3) (currentTxid st3) tx
                          in if nextTxid = [] then Break st3
                             else did_crawlLoop pf api maxHops (hop + 1)
                                    (st3\<lparr>currentTxid := nextTxid\<rparr>))))))
      else Break st)"
  by pat_completeness auto
termination
  by (relation "measure (\<lambda>(pf, api, maxHops, hop, st). maxHops - hop)") auto

definition internalError :: "'d resolution" where
  "internalError = \<lparr>didDocument = None, metaCreated = None, metaUpdated = None,
                     metaDeactivated = False, metaVersionId = None,
                     resError = Some ''internalError'',
                     resMessage = Some ''WhatsOnChain resolution failed''\<rparr>"

text \<open>The hop limit is the constant 100; an exception is caught and reported (the message
  of the result goes on with the text of the exception, which is left out here).\<close>

definition resolveViaWhatsOnChain :: "'d platform \<Rightarrow> chainApi \<Rightarrow> string \<Rightarrow> 'd resolution" where
  "resolveViaWhatsOnChain pf api txid =
     (case did_crawlLoop pf api 100 0 (initial txid) of
        Return r st \<Rightarrow> r
      | Break st \<Rightarrow> finish pf st
      | Throw st \<Rightarrow> internalError)"

subsection \<open>server/did-resolver.ts: \<open>DIDResolverService.resolveViaWoC\<close>\<close>

text \<open>The same loop over the resolver's own parser; where that parser does not return,
  neither does the crawl (\<open>None\<close>).\<close>

fun resolver_findSegments :: "(byte list \<Rightarrow> string) \<Rightarrow> txOutput list \<Rightarrow> string list option" where
  "resolver_findSegments dec [] = Some []"
| "resolver_findSegments dec (v # vs) =
     (case scriptHex v of
        None \<Rightarrow> resolver_findSegments dec vs
      | Some hex \<Rightarrow>
         if hex = [] then resolver_findSegments dec vs
         else (case resolver_parseOpReturnSegments dec hex of
                 None \<Rightarrow> None
               | Some s \<Rightarrow>
                  if length s \<ge> 3 \<and> s ! 0 = BSVDID_MARKER then Some s
                  else resolver_findSegments dec vs))"

function resolver_crawlLoop ::
  "'d platform \<Rightarrow> chainApi \<Rightarrow> nat \<Rightarrow> nat \<Rightarrow> 'd crawl \<Rightarrow> 'd exit option" where
  "resolver_crawlLoop pf api maxHops hop st =
     (if hop < maxHops then
        (if currentTxid st \<in> set (visited st) then Some (Break st)
         else
           (let st1 = st\<lparr>visited := visited st @ [currentTxid st]\<rparr> in
            case fetchTx api hop (currentTxid st1) of
              Threw \<Rightarrow> Some (Throw st1)
            | NotOk \<Rightarrow> Some (Return notFound st1)
            | Ok tx \<Rightarrow>
               (case noteCreated tx st1 of
                  None \<Rightarrow> Some (Throw st1)
                | Some st2 \<Rightarrow>
                   (case resolver_findSegments (textDecode pf) (vout tx) of
                      None \<Rightarrow> None
                    | Some segments \<Rightarrow>
                       if length segments \<ge> 3 \<and> segments ! 2 = ''3''
                       then Some (Return (revoked st2) st2)
                       else
                         (let st3 = (if length segments \<ge> 3
                                     then applyPayload pf tx (segments ! 2) st2 else st2);
                              nextTxid = nextHop api hop (visited st3) (currentTxid st3) tx
                          in if nextTxid = [] then Some (Break st3)
                             else resolver_crawlLoop pf api maxHops (hop + 1)
                                    (st3\<lparr>currentTxid := nextTxid\<rparr>))))))
      else Some (Break st))"
  by pat_completeness auto
termination
  by (relation "measure (\<lambda>(pf, api, maxHops, hop, st). maxHops - hop)") auto

text \<open>The outcome of a call that may throw.\<close>

datatype 'a outcome = Thrown | Returned 'a

text \<open>\<open>maxHops\<close> is the configured limit, 100 where the configuration has none (or 0).
  An exception of a transaction fetch or of the date of \<open>created\<close> leaves the method.\<close>

definition resolveViaWoC ::
  "'d platform \<Rightarrow> chainApi \<Rightarrow> nat \<Rightarrow> string \<Rightarrow> 'd resolution outcome option" where
  "resolveViaWoC pf api configMaxHops txid =
     (case resolver_crawlLoop pf api (if configMaxHops = 0 then 100 else configMaxHops) 0
             (initial txid) of
        None \<Rightarrow> None
      | Some (Return r st) \<Rightarrow> Some (Returned r)
      | Some (Break st) \<Rightarrow> Some (Returned (finish pf st))
      | Some (Throw st) \<Rightarrow> Some Thrown)"

section \<open>modules/did.ts: the DID utility class\<close>

text \<open>Every error the module throws is a \<open>DIDError\<close>; the constructors stand for its
  messages. \<open>NoActiveChainState\<close> is "No active chain state found for ..." (the
  \<open>ChainStateNotFoundError\<close> of the specification). \<open>CreationFailed\<close>, \<open>UpdateFailed\<close> and
  \<open>DeactivationFailed\<close> are the wrappers the \<open>catch\<close> blocks put around any other
  exception.\<close>

datatype didError =
    InvalidDID | InvalidTxid | InvalidIdentityKey
  | NoIssuanceTxid | IssuanceOutputNotFound
  | NoActiveChainState string | ChainKeyMissing
  | ExpectedSignable | NoUnlockingScript
  | CreationFailed | UpdateFailed | DeactivationFailed

datatype exn = DIDError didError | OtherError

definition DID_PREFIX :: string where
  "DID_PREFIX = ''did:bsv:''"

definition isLowerHex :: "char \<Rightarrow> bool" where
  "isLowerHex c = (let n = (of_char c :: nat) in (48 \<le> n \<and> n \<le> 57) \<or> (97 \<le> n \<and> n \<le> 102))"

definition isHexChar :: "char \<Rightarrow> bool" where
  "isHexChar c = (digitVal c \<noteq> None)"

definition isTxid :: "string \<Rightarrow> bool" where
  "isTxid s = (length s = 64 \<and> list_all isLowerHex s)"

text \<open>\<open>DID.parse\<close>: the identifier, or the error.\<close>

definition DID_parse :: "string \<Rightarrow> didError + string" where
  "DID_parse didString =
     (if didString = [] \<or> take (length DID_PREFIX) didString \<noteq> DID_PREFIX then Inl InvalidDID
      else (let identifier = drop (length DID_PREFIX) didString in
            if isTxid identifier then Inr identifier
            else if length identifier = 66 \<and> list_all isHexChar identifier then Inr identifier
            else Inl InvalidDID))"

definition DID_fromTxid :: "string \<Rightarrow> didError + string" where
  "DID_fromTxid t = (if isTxid t then Inr (DID_PREFIX @ t) else Inl InvalidTxid)"

record jwk =
  jwkKty :: string
  jwkCrv :: string
  jwkX :: string
  jwkY :: string

record verificationMethod =
  vmId :: string
  vmType :: string
  vmController :: string
  publicKeyJwk :: jwk

record service =
  svcId :: string
  svcType :: string
  serviceEndpoint :: string

record document =
  docId :: string
  docController :: "string option"
  docVerificationMethod :: "verificationMethod list"
  docAuthentication :: "string list"
  docAssertionMethod :: "string list option"
  docService :: "service list option"

definition VERIFICATION_KEY_TYPE :: string where
  "VERIFICATION_KEY_TYPE = ''JsonWebKey2020''"


text \<open>A JavaScript string or \<open>undefined\<close> is a \<open>string option\<close>; it is truthy when it is a
  string that is not empty.\<close>

definition truthyStr :: "string option \<Rightarrow> bool" where
  "truthyStr s = (case s of None \<Rightarrow> False | Some t \<Rightarrow> t \<noteq> [])"

subsection \<open>The wallet, the ledger and the key library\<close>

text \<open>What the module reads from its surroundings. \<open>keyCoordinates\<close> is the SDK's
  \<open>PublicKey.fromString\<close> with the base64url of both coordinates (\<open>None\<close>: it throws on
  a string that is no public key), \<open>chainAddress\<close> the address of a private key given in
  hexadecimal (\<open>None\<close>: \<open>PrivateKey.fromHex\<close> throws), \<open>getPublicKey\<close> the wallet's key
  derivation, \<open>trackingScript\<close> what \<open>buildTrackingScript\<close> makes of the identity key
  (\<open>None\<close>: it throws). \<open>random\<close> gives the n-th random draw (a chain key or an
  identity code), \<open>actionResult\<close> what the wallet and the ledger make of the n-th
  transaction.\<close>

datatype actionOutcome = Fails | NoSignable | NoUnlock | Done string

record env =
  keyCoordinates :: "string \<Rightarrow> (string \<times> string) option"
  chainAddress :: "string \<Rightarrow> string option"
  p2pkhLock :: "string \<Rightarrow> string"
  trackingScript :: "string option"
  getPublicKey :: "string \<Rightarrow> string option"
  stringify :: "document \<Rightarrow> string"
  utf8 :: "string \<Rightarrow> byte list"
  random :: "nat \<Rightarrow> string"
  actionResult :: "nat \<Rightarrow> actionOutcome"
  walletAvailable :: bool
  didBasket :: string

text \<open>The metadata attached to a tracked output (\<open>customInstructions\<close>): the object that
  \<open>JSON.stringify\<close> wrote and \<open>JSON.parse\<close> reads back is the record itself;
  \<open>Unparsable\<close> is a text on which \<open>JSON.parse\<close> throws, \<open>NoInstructions\<close> an absent or
  empty one.\<close>

record ci =
  ciType :: string
  ciDid :: "string option"
  ciIdentityCode :: "string option"
  ciChainKeyHex :: "string option"
  ciSubjectKey :: "string option"
  ciIssuanceTxid :: "string option"
  ciServices :: "service list option"
  ciAdditionalKeys :: "string list option"
  ciStatus :: "string option"

datatype instructions = NoInstructions | Unparsable | Parsed ci

record trackedOutput =
  outpoint :: string
  basket :: string
  customInstructions :: instructions

record newOutput =
  lockingScript :: string
  satoshis :: nat
  outBasket :: "string option"
  outInstructions :: "ci option"

text \<open>Modelled from the spec: the wallet with its tracked-output store and the ledger
  behind it, which are not part of the repository. The store keeps the tracked outputs in
  the order they were made; a transaction removes the output it spends (the ledger lets
  an output be spent once) and adds those of its outputs that name a basket, at the
  outpoints \<open>txid.0\<close>, \<open>txid.1\<close>, ... in the order given. A transaction that fails
  changes nothing but the count of attempts: either the new state is published or the
  prior state remains. The store does not change between the attempts of \<open>createDID\<close>
  to see the issuance output, so one look stands for the three.\<close>

record world =
  tracked :: "trackedOutput list"
  actions :: nat
  draws :: nat

definition outpointOf :: "string \<Rightarrow> nat \<Rightarrow> string" where
  "outpointOf t i = t @ ''.'' @ decimal i"

fun trackOutputs :: "string \<Rightarrow> nat \<Rightarrow> newOutput list \<Rightarrow> trackedOutput list" where
  "trackOutputs t i [] = []"
| "trackOutputs t i (n # ns) =
     (case outBasket n of
        None \<Rightarrow> trackOutputs t (i + 1) ns
      | Some b \<Rightarrow>
         \<lparr>outpoint = outpointOf t i, basket = b,
          customInstructions = (case outInstructions n of None \<Rightarrow> NoInstructions | Some c \<Rightarrow> Parsed c)\<rparr>
         # trackOutputs t (i + 1) ns)"

definition listOutputs :: "env \<Rightarrow> world \<Rightarrow> string \<Rightarrow> trackedOutput list option" where
  "listOutputs env w b =
     (if walletAvailable env then Some (filter (\<lambda>out. basket out = b) (tracked w)) else None)"

definition draw :: "env \<Rightarrow> world \<Rightarrow> string \<times> world" where
  "draw env w = (random env (draws w), w\<lparr>draws := draws w + 1\<rparr>)"

text \<open>\<open>createAction\<close> without inputs: the txid (empty where the answer has none).\<close>

definition createAction :: "env \<Rightarrow> world \<Rightarrow> newOutput list \<Rightarrow> string outcome \<times> world" where
  "createAction env w outs =
     (let w1 = w\<lparr>actions := actions w + 1\<rparr> in
      case actionResult env (actions w) of
        Fails \<Rightarrow> (Thrown, w1)
      | Done t \<Rightarrow> (Returned t, w1\<lparr>tracked := tracked w @ trackOutputs t 0 outs\<rparr>)
      | _ \<Rightarrow> (Returned [], w1))"

subsection \<open>\<open>spendChainOutput\<close>\<close>

definition spendChainOutput ::
  "env \<Rightarrow> world \<Rightarrow> string \<Rightarrow> string \<Rightarrow> string \<Rightarrow> newOutput list \<Rightarrow> (exn + string) \<times> world" where
  "spendChainOutput env w b currentOutpoint chainKeyHex newOutputs =
     (case chainAddress env chainKeyHex of
        None \<Rightarrow> (Inl OtherError, w)
      | Some a \<Rightarrow>
         (case listOutputs env w b of
            None \<Rightarrow> (Inl OtherError, w)
          | Some outs \<Rightarrow>
             if currentOutpoint \<notin> set (map outpoint (tracked w)) then (Inl OtherError, w)
             else
               (let w1 = w\<lparr>actions := actions w + 1\<rparr> in
                case actionResult env (actions w) of
                  Fails \<Rightarrow> (Inl OtherError, w1)
                | NoSignable \<Rightarrow> (Inl (DIDError ExpectedSignable), w1)
                | NoUnlock \<Rightarrow> (Inl (DIDError NoUnlockingScript), w1)
                | Done t \<Rightarrow>
                   (Inr t, w1\<lparr>tracked := filter (\<lambda>out. outpoint out \<noteq> currentOutpoint) (tracked w)
                                          @ trackOutputs t 0 newOutputs\<rparr>))))"

subsection \<open>\<open>DID.buildDocument\<close> and \<open>DID.fromIdentityKey\<close>\<close>

definition pubKeyToJwk :: "env \<Rightarrow> string option \<Rightarrow> jwk option" where
  "pubKeyToJwk env key =
     (case key of
        None \<Rightarrow> None
      | Some k \<Rightarrow>
         (case keyCoordinates env k of
            None \<Rightarrow> None
          | Some (cx, cy) \<Rightarrow> Some \<lparr>jwkKty = ''EC'', jwkCrv = ''secp256k1'', jwkX = cx, jwkY = cy\<rparr>))"

definition buildDocument ::
  "env \<Rightarrow> string option \<Rightarrow> string option \<Rightarrow> string option \<Rightarrow> service list option \<Rightarrow> exn + document" where
  "buildDocument env issuance subjectPubKeyHex controllerDID services =
     (case issuance of
        None \<Rightarrow> Inl (DIDError InvalidTxid)
      | Some t \<Rightarrow>
         (case DID_fromTxid t of
            Inl e \<Rightarrow> Inl (DIDError e)
          | Inr d \<Rightarrow>
             (case pubKeyToJwk env subjectPubKeyHex of
                None \<Rightarrow> Inl OtherError
              | Some k \<Rightarrow>
                 Inr \<lparr>docId = d,
                      docController = (if truthyStr controllerDID then controllerDID else None),
                      docVerificationMethod =
                        [\<lparr>vmId = d @ ''#subject-key'', vmType = VERIFICATION_KEY_TYPE,
                          vmController = d, publicKeyJwk = k\<rparr>],
                      docAuthentication = [d @ ''#subject-key''],
                      docAssertionMethod = None,
                      docService = (case services of None \<Rightarrow> None
                                    | Some ss \<Rightarrow> if ss = [] then None else Some ss)\<rparr>)))"

text \<open>The loop that appends one verification method per additional key, numbered from 2.\<close>

fun addKeys :: "env \<Rightarrow> string \<Rightarrow> nat \<Rightarrow> string list \<Rightarrow> document \<Rightarrow> exn + document" where
  "addKeys env d i [] doc = Inr doc"
| "addKeys env d i (k # ks) doc =
     (case pubKeyToJwk env (Some k) of
        None \<Rightarrow> Inl OtherError
      | Some j \<Rightarrow>
         addKeys env d (i + 1) ks
           (doc\<lparr>docVerificationMethod := docVerificationMethod doc @
                  [\<lparr>vmId = d @ ''#key-'' @ decimal (i + 2), vmType = VERIFICATION_KEY_TYPE,
                    vmController = d, publicKeyJwk = j\<rparr>]\<rparr>))"

definition opReturnHex :: "env \<Rightarrow> string \<Rightarrow> string \<Rightarrow> string option" where
  "opReturnHex env identityCode payload = buildOpReturnHex (utf8 env) identityCode payload"

subsection \<open>\<open>createDID\<close>\<close>

record createOptions =
  optIdentityCode :: "string option"
  optBasket :: "string option"
  optServices :: "service list option"

record createResult =
  resDid :: string
  resTxid :: string
  resIdentityCode :: "string option"
  resDocument :: document

definition chainOutput :: "env \<Rightarrow> string \<Rightarrow> string \<Rightarrow> ci \<Rightarrow> newOutput" where
  "chainOutput env chainAddr b c =
     \<lparr>lockingScript = p2pkhLock env chainAddr, satoshis = 1, outBasket = Some b,
      outInstructions = Some c\<rparr>"

definition dataOutput :: "string \<Rightarrow> newOutput" where
  "dataOutput hex = \<lparr>lockingScript = hex, satoshis = 0, outBasket = None, outInstructions = None\<rparr>"

text \<open>The body of the \<open>try\<close> block. The three attempts to see the issuance output read the
  same wallet, so one look decides.\<close>

definition createDID_try :: "env \<Rightarrow> world \<Rightarrow> createOptions \<Rightarrow> (exn + createResult) \<times> world" where
  "createDID_try env w options =
     (let b = (case optBasket options of None \<Rightarrow> didBasket env | Some b' \<Rightarrow> b');
          (identityCode, w1) = (case optIdentityCode options of None \<Rightarrow> draw env w | Some c \<Rightarrow> (c, w));
          (chainKeyHex, w2) = draw env w1
      in case chainAddress env chainKeyHex of
           None \<Rightarrow> (Inl OtherError, w2)
         | Some chainAddr \<Rightarrow>
      (case getPublicKey env (identityCode @ ''-subject'') of
           None \<Rightarrow> (Inl OtherError, w2)
         | Some subjectKey \<Rightarrow>
      (case opReturnHex env identityCode ''1'' of
           None \<Rightarrow> (Inl OtherError, w2)
         | Some issuanceHex \<Rightarrow>
      (case createAction env w2
              [chainOutput env chainAddr b
                 \<lparr>ciType = ''did-issuance'', ciDid = None, ciIdentityCode = Some identityCode,
                  ciChainKeyHex = Some chainKeyHex, ciSubjectKey = Some subjectKey,
                  ciIssuanceTxid = None, ciServices = None, ciAdditionalKeys = None,
                  ciStatus = Some ''pending''\<rparr>,
               dataOutput issuanceHex] of
           (Thrown, w3) \<Rightarrow> (Inl OtherError, w3)
         | (Returned issuanceTxid, w3) \<Rightarrow>
      if issuanceTxid = [] then (Inl (DIDError NoIssuanceTxid), w3)
      else
      (case DID_fromTxid issuanceTxid of
           Inl e \<Rightarrow> (Inl (DIDError e), w3)
         | Inr d \<Rightarrow>
      (case buildDocument env (Some issuanceTxid) (Some subjectKey) (Some d) (optServices options) of
           Inl e \<Rightarrow> (Inl e, w3)
         | Inr doc \<Rightarrow>
      (case listOutputs env w3 b of
           None \<Rightarrow> (Inl OtherError, w3)
         | Some outs \<Rightarrow>
      if outpointOf issuanceTxid 0 \<notin> set (map outpoint outs)
      then (Inl (DIDError IssuanceOutputNotFound), w3)
      else
      (case opReturnHex env identityCode (stringify env doc) of
           None \<Rightarrow> (Inl OtherError, w3)
         | Some documentHex \<Rightarrow>
      (case spendChainOutput env w3 b (outpointOf issuanceTxid 0) chainKeyHex
              [chainOutput env chainAddr b
                 \<lparr>ciType = ''did-document'', ciDid = Some d, ciIdentityCode = Some identityCode,
                  ciChainKeyHex = Some chainKeyHex, ciSubjectKey = Some subjectKey,
                  ciIssuanceTxid = Some issuanceTxid, ciServices = None,
                  ciAdditionalKeys = None, ciStatus = Some ''active''\<rparr>,
               dataOutput documentHex] of
           (Inl e, w4) \<Rightarrow> (Inl e, w4)
         | (Inr spendTxid, w4) \<Rightarrow>
             (Inr \<lparr>resDid = d, resTxid = issuanceTxid, resIdentityCode = Some identityCode,
                   resDocument = doc\<rparr>, w4))))))))))"

text \<open>The \<open>catch\<close> block: a \<open>DIDError\<close> is thrown on, anything else is wrapped.\<close>

definition rethrow :: "didError \<Rightarrow> (exn + 'a) \<times> world \<Rightarrow> (didError + 'a) \<times> world" where
  "rethrow wrapper r =
     (case r of
        (Inl (DIDError e), w) \<Rightarrow> (Inl e, w)
      | (Inl OtherError, w) \<Rightarrow> (Inl wrapper, w)
      | (Inr v, w) \<Rightarrow> (Inr v, w))"

definition createDID :: "env \<Rightarrow> world \<Rightarrow> createOptions \<Rightarrow> (didError + createResult) \<times> world" where
  "createDID env w options = rethrow CreationFailed (createDID_try env w options)"

subsection \<open>\<open>updateDID\<close> and \<open>deactivateDID\<close>\<close>

text \<open>The scan both methods make: the last output whose metadata parses, names the DID and
  is active, with its outpoint.\<close>

fun findActive :: "trackedOutput list \<Rightarrow> string \<Rightarrow> (ci \<times> string) option \<Rightarrow> (ci \<times> string) option" where
  "findActive [] d found = found"
| "findActive (out # outs) d found =
     (case customInstructions out of
        Parsed c \<Rightarrow>
          if ciDid c = Some d \<and> ciStatus c = Some ''active''
          then findActive outs d (Some (c, outpoint out))
          else findActive outs d found
      | _ \<Rightarrow> findActive outs d found)"

record updateOptions =
  uoDid :: string
  uoServices :: "service list option"
  uoAdditionalKeys :: "string list option"

definition ofOpt :: "string option \<Rightarrow> string" where
  "ofOpt s = (case s of None \<Rightarrow> [] | Some t \<Rightarrow> t)"

definition updateDID_try :: "env \<Rightarrow> world \<Rightarrow> updateOptions \<Rightarrow> (exn + createResult) \<times> world" where
  "updateDID_try env w options =
     (case DID_parse (uoDid options) of
        Inl e \<Rightarrow> (Inl (DIDError e), w)
      | Inr identifier \<Rightarrow>
     (case listOutputs env w (didBasket env) of
        None \<Rightarrow> (Inl OtherError, w)
      | Some outs \<Rightarrow>
     (case findActive outs (uoDid options) None of
        None \<Rightarrow> (Inl (DIDError (NoActiveChainState (uoDid options))), w)
      | Some (chainCI, chainOutpoint) \<Rightarrow>
     if \<not> truthyStr (ciChainKeyHex chainCI) then (Inl (DIDError ChainKeyMissing), w)
     else
     (case chainAddress env (ofOpt (ciChainKeyHex chainCI)) of
        None \<Rightarrow> (Inl OtherError, w)
      | Some chainAddr \<Rightarrow>
     (case ciIssuanceTxid chainCI of
        None \<Rightarrow> (Inl (DIDError InvalidTxid), w)
      | Some issuanceTxid \<Rightarrow>
     (case buildDocument env (Some issuanceTxid) (ciSubjectKey chainCI) (Some (uoDid options))
             (uoServices options) of
        Inl e \<Rightarrow> (Inl e, w)
      | Inr doc0 \<Rightarrow>
     (case addKeys env (uoDid options) 0
             (case uoAdditionalKeys options of None \<Rightarrow> [] | Some ks \<Rightarrow> ks) doc0 of
        Inl e \<Rightarrow> (Inl e, w)
      | Inr doc \<Rightarrow>
     (case opReturnHex env (ofOpt (ciIdentityCode chainCI)) (stringify env doc) of
        None \<Rightarrow> (Inl OtherError, w)
      | Some documentHex \<Rightarrow>
     (case spendChainOutput env w (didBasket env) chainOutpoint (ofOpt (ciChainKeyHex chainCI))
             [chainOutput env chainAddr (didBasket env)
                \<lparr>ciType = ''did-update'', ciDid = Some (uoDid options),
                 ciIdentityCode = ciIdentityCode chainCI,
                 ciChainKeyHex = ciChainKeyHex chainCI, ciSubjectKey = ciSubjectKey chainCI,
                 ciIssuanceTxid = Some issuanceTxid, ciServices = uoServices options,
                 ciAdditionalKeys = uoAdditionalKeys options, ciStatus = Some ''active''\<rparr>,
              dataOutput documentHex] of
        (Inl e, w1) \<Rightarrow> (Inl e, w1)
      | (Inr spendTxid, w1) \<Rightarrow>
          (Inr \<lparr>resDid = uoDid options, resTxid = issuanceTxid,
                resIdentityCode = ciIdentityCode chainCI, resDocument = doc\<rparr>, w1))))))))))"

definition updateDID :: "env \<Rightarrow> world \<Rightarrow> updateOptions \<Rightarrow> (didError + createResult) \<times> world" where
  "updateDID env w options = rethrow UpdateFailed (updateDID_try env w options)"

definition deactivateDID_try :: "env \<Rightarrow> world \<Rightarrow> string \<Rightarrow> (exn + string) \<times> world" where
  "deactivateDID_try env w didString =
     (case DID_parse didString of
        Inl e \<Rightarrow> (Inl (DIDError e), w)
      | Inr identifier \<Rightarrow>
     (case listOutputs env w (didBasket env) of
        None \<Rightarrow> (Inl OtherError, w)
      | Some outs \<Rightarrow>
     (case findActive outs didString None of
        None \<Rightarrow> (Inl (DIDError (NoActiveChainState didString)), w)
      | Some (chainCI, chainOutpoint) \<Rightarrow>
     if \<not> truthyStr (ciChainKeyHex chainCI) then (Inl (DIDError ChainKeyMissing), w)
     else
     (case opReturnHex env (ofOpt (ciIdentityCode chainCI)) ''3'' of
        None \<Rightarrow> (Inl OtherError, w)
      | Some revocationHex \<Rightarrow>
     (case trackingScript env of
        None \<Rightarrow> (Inl OtherError, w)
      | Some tracker \<Rightarrow>
     spendChainOutput env w (didBasket env) chainOutpoint (ofOpt (ciChainKeyHex chainCI))
        [dataOutput revocationHex,
         \<lparr>lockingScript = tracker, satoshis = 1, outBasket = Some (didBasket env),
          outInstructions =
            Some \<lparr>ciType = ''did-revocation'', ciDid = Some didString,
                  ciIdentityCode = ciIdentityCode chainCI, ciChainKeyHex = None,
                  ciSubjectKey = ciSubjectKey chainCI, ciIssuanceTxid = ciIssuanceTxid chainCI,
                  ciServices = None, ciAdditionalKeys = None,
                  ciStatus = Some ''deactivated''\<rparr>\<rparr>])))))"

definition deactivateDID :: "env \<Rightarrow> world \<Rightarrow> string \<Rightarrow> (didError + string) \<times> world" where
  "deactivateDID env w didString = rethrow DeactivationFailed (deactivateDID_try env w didString)"

subsection \<open>\<open>_resolveFromBasket\<close>\<close>




subsection \<open>\<open>resolveDID\<close>\<close>

text \<open>The remote tiers. \<open>didProxyUrl\<close> and \<open>didResolverUrl\<close> are empty where they are not
  configured. The proxy answers with a resolution result; the resolver service answers
  200 (\<open>ReplyOk\<close>), 410 (\<open>ReplyGone\<close>) or anything else, and its body is taken here as
  the result the method shapes from it.\<close>

datatype 'j resolverReply = ReplyThrew | ReplyOk "'j resolution" | ReplyGone "'j resolution" | ReplyOther



text \<open>The calls that leave the process, in the order they are made.\<close>

datatype call = ListOutputs | FetchProxy | FetchResolver | ChainCrawl






section \<open>server/did-resolver.ts: the service and its HTTP handler\<close>

text \<open>\<open>DIDResolverService.resolve\<close>: the universal resolver first, then the crawl for a
  DID whose identifier is 64 hexadecimal digits in either case (the crawl starts from its
  lower-case form), else "not found".\<close>

definition toLower :: "char \<Rightarrow> char" where
  "toLower c = (let n = (of_char c :: nat) in if 65 \<le> n \<and> n \<le> 90 then char_of (n + 32) else c)"

definition txidMatch :: "string \<Rightarrow> string option" where
  "txidMatch d =
     (if map toLower (take (length DID_PREFIX) d) = DID_PREFIX
         \<and> length (drop (length DID_PREFIX) d) = 64
         \<and> list_all isHexChar (drop (length DID_PREFIX) d)
      then Some (drop (length DID_PREFIX) d) else None)"

definition couldNotResolve :: "'d resolution" where
  "couldNotResolve = \<lparr>didDocument = None, metaCreated = None, metaUpdated = None,
                       metaDeactivated = False, metaVersionId = None,
                       resError = Some ''notFound'',
                       resMessage = Some ''DID could not be resolved''\<rparr>"

definition service_resolve ::
  "'d platform \<Rightarrow> chainApi \<Rightarrow> nat \<Rightarrow> (string \<Rightarrow> 'd resolverReply) \<Rightarrow> string
     \<Rightarrow> 'd resolution outcome option" where
  "service_resolve pf api configMaxHops fetchUniversal d =
     (case fetchUniversal d of
        ReplyOk r \<Rightarrow> Some (Returned r)
      | ReplyGone r \<Rightarrow> Some (Returned r)
      | _ \<Rightarrow>
         (case txidMatch d of
            Some t \<Rightarrow> resolveViaWoC pf api configMaxHops (map toLower t)
          | None \<Rightarrow> Some (Returned couldNotResolve)))"

datatype 'd body = ErrorBody string | ResultBody "'d resolution"

record 'd handlerResponse =
  hrStatus :: nat
  hrBody :: "'d body"

definition handlerError :: "'d resolution" where
  "handlerError = \<lparr>didDocument = None, metaCreated = None, metaUpdated = None,
                    metaDeactivated = False, metaVersionId = None,
                    resError = Some ''internalError'', resMessage = Some ''Resolution failed''\<rparr>"

definition missingParameter :: string where
  "missingParameter = ''Missing '' @ [CHR 0x22] @ ''did'' @ [CHR 0x22] @ '' query parameter''"

text \<open>The \<open>GET\<close> handler over a resolver; \<open>didParam\<close> is \<open>params.get('did')\<close>, \<open>None\<close>
  for \<open>null\<close>. Where the resolver does not return, neither does the handler (\<open>None\<close>).
  The message of \<open>handlerError\<close> goes on with the text of the exception, which is left
  out here.\<close>

definition handler_GET ::
  "(string \<Rightarrow> 'd resolution outcome option) \<Rightarrow> string option \<Rightarrow> 'd handlerResponse option" where
  "handler_GET resolve didParam =
     (case didParam of
        None \<Rightarrow> Some \<lparr>hrStatus = 400, hrBody = ErrorBody missingParameter\<rparr>
      | Some d \<Rightarrow>
         if d = [] then Some \<lparr>hrStatus = 400, hrBody = ErrorBody missingParameter\<rparr>
         else
           (case resolve d of
              None \<Rightarrow> None
            | Some Thrown \<Rightarrow> Some \<lparr>hrStatus = 502, hrBody = ResultBody handlerError\<rparr>
            | Some (Returned result) \<Rightarrow>
               Some \<lparr>hrStatus = (if resError result = Some ''notFound'' then 404
                                 else if resError result = Some ''internalError'' then 502
                                 else 200),
                     hrBody = ResultBody result\<rparr>))"

section \<open>Notions used in the statements\<close>

subsection \<open>Example chains\<close>

text \<open>Four transaction ids: \<open>aa...a\<close>, \<open>bb...b\<close>, \<open>cc...c\<close> and \<open>dd...d\<close>.\<close>

definition txidA :: string where "txidA = replicate 64 (CHR ''a'')"
definition txidB :: string where "txidB = replicate 64 (CHR ''b'')"
definition txidC :: string where "txidC = replicate 64 (CHR ''c'')"
definition txidD :: string where "txidD = replicate 64 (CHR ''d'')"

text \<open>A platform for evaluating examples: 7-bit text, and a stand-in for \<open>JSON.parse\<close>
  that accepts the texts beginning with an opening brace and returns them as they are.\<close>

definition examplePlatform :: "string platform" where
  "examplePlatform =
     \<lparr>textDecode = asciiDecode,
      jsonParse = (\<lambda>s. case s of [] \<Rightarrow> None | c # _ \<Rightarrow> if c = CHR ''{'' then Some s else None),
      truthy = (\<lambda>d. True)\<rparr>"

text \<open>Example transactions: an issuance (payload \<open>1\<close>, identity code \<open>abc\<close>) whose output 0
  pays to an address, and a transaction whose only output has the script \<open>6a4efbffffff\<close>
  (\<open>OP_RETURN\<close>, then \<open>OP_PUSHDATA4\<close> with the length bytes \<open>fb ff ff ff\<close>).\<close>

definition issuanceTx :: txData where
  "issuanceTx =
     \<lparr>time = 1,
      vout = [\<lparr>scriptHex = Some ''76a914000000000000000000000000000000000000000088ac'',
               addresses = [''1ChainKeyAddress'']\<rparr>,
              \<lparr>scriptHex = Some ''006a06425356444944036162630131'', addresses = []\<rparr>]\<rparr>"

definition craftedTx :: txData where
  "craftedTx = \<lparr>time = 1, vout = [\<lparr>scriptHex = Some ''6a4efbffffff'', addresses = []\<rparr>]\<rparr>"

text \<open>Example answers of the indexing API. \<open>pendingApi\<close>: the issuance transaction
  \<open>aa...a\<close> and no other, no spend of its output 0 (404) and an empty address history.
  \<open>missingNextApi\<close>: the spend endpoint names a next transaction \<open>bb...b\<close>, which the
  transaction endpoint does not serve. \<open>craftedApi\<close>: a transaction with the crafted
  script.\<close>

definition pendingApi :: chainApi where
  "pendingApi =
     \<lparr>fetchTx = (\<lambda>hop t. if t = txidA then Ok issuanceTx else NotOk),
      fetchSpend = (\<lambda>hop t. NotOk),
      fetchHistory = (\<lambda>hop a. Ok [])\<rparr>"

definition missingNextApi :: chainApi where
  "missingNextApi =
     \<lparr>fetchTx = (\<lambda>hop t. if t = txidA then Ok issuanceTx else NotOk),
      fetchSpend = (\<lambda>hop t. if t = txidA then Ok txidB else NotOk),
      fetchHistory = (\<lambda>hop a. Ok [])\<rparr>"

definition craftedApi :: chainApi where
  "craftedApi = \<lparr>fetchTx = (\<lambda>hop t. Ok craftedTx), fetchSpend = (\<lambda>hop t. NotOk),
                  fetchHistory = (\<lambda>hop a. NotOk)\<rparr>"

text \<open>\<open>cycleApi\<close>: the issuance transaction \<open>aa...a\<close> is spent by \<open>bb...b\<close>, which
  carries the document \<open>{}\<close>, and the spend endpoint claims that \<open>bb...b\<close> is spent by
  \<open>aa...a\<close> again.\<close>

definition documentTx :: txData where
  "documentTx =
     \<lparr>time = 2,
      vout = [\<lparr>scriptHex = Some ''76a914000000000000000000000000000000000000000088ac'',
               addresses = [''1ChainKeyAddress'']\<rparr>,
              \<lparr>scriptHex = Some ''006a0642535644494403616263027b7d'', addresses = []\<rparr>]\<rparr>"

definition cycleApi :: chainApi where
  "cycleApi =
     \<lparr>fetchTx = (\<lambda>hop t. if t = txidA then Ok issuanceTx
                          else if t = txidB then Ok documentTx else NotOk),
      fetchSpend = (\<lambda>hop t. if t = txidA then Ok txidB
                             else if t = txidB then Ok txidA else NotOk),
      fetchHistory = (\<lambda>hop a. Ok [])\<rparr>"

text \<open>An output whose metadata parses and names the DID.\<close>

definition namesDid :: "string \<Rightarrow> trackedOutput \<Rightarrow> bool" where
  "namesDid d out = (case customInstructions out of Parsed c \<Rightarrow> ciDid c = Some d | _ \<Rightarrow> False)"

text \<open>A sequence of \<open>updateDID\<close> calls, each on the wallet the one before has left.\<close>

fun updateAll :: "env \<Rightarrow> world \<Rightarrow> updateOptions list \<Rightarrow> (didError + createResult) list \<times> world" where
  "updateAll env w [] = ([], w)"
| "updateAll env w (options # rest) =
     (case updateDID env w options of
        (r, w1) \<Rightarrow> (case updateAll env w1 rest of (rs, w2) \<Rightarrow> (r # rs, w2)))"

subsection \<open>The life of a wallet\<close>

text \<open>An output that names the DID with the status \<open>active\<close>: what the lookup of
  \<open>updateDID\<close> and \<open>deactivateDID\<close> searches for.\<close>

definition activeFor :: "string \<Rightarrow> trackedOutput \<Rightarrow> bool" where
  "activeFor d out =
     (case customInstructions out of
        Parsed c \<Rightarrow> ciDid c = Some d \<and> ciStatus c = Some ''active''
      | _ \<Rightarrow> False)"

text \<open>The calls of the module that write to the wallet, and the wallet each leaves,
  whether the call succeeds or throws.\<close>

datatype operation = Create createOptions | Update updateOptions | Deactivate string

fun perform :: "env \<Rightarrow> world \<Rightarrow> operation \<Rightarrow> world" where
  "perform env w (Create options) = snd (createDID env w options)"
| "perform env w (Update options) = snd (updateDID env w options)"
| "perform env w (Deactivate d) = snd (deactivateDID env w d)"

definition performAll :: "env \<Rightarrow> world \<Rightarrow> operation list \<Rightarrow> world" where
  "performAll env w ops = foldl (perform env) w ops"

text \<open>The ledger gives no transaction id twice (an answer without a well-formed id does
  not count).\<close>

definition ledgerFresh :: "env \<Rightarrow> bool" where
  "ledgerFresh env =
     (\<forall>i j t. actionResult env i = Done t \<and> actionResult env j = Done t \<and> isTxid t
        \<longrightarrow> i = j)"

text \<open>The DID of the transaction that the i-th action has made.\<close>

definition issuedBy :: "env \<Rightarrow> nat \<Rightarrow> string \<Rightarrow> bool" where
  "issuedBy env i d = (\<exists>t. actionResult env i = Done t \<and> isTxid t \<and> d = DID_PREFIX @ t)"

text \<open>The wallets that the module alone has written to: at the start no output names a
  DID, and every later wallet is the one a call of the module has left.\<close>

inductive reachable :: "env \<Rightarrow> world \<Rightarrow> bool" for env where
  start: "(\<forall>out \<in> set (tracked w). \<forall>d. \<not> namesDid d out) \<Longrightarrow> reachable env w"
| step: "reachable env w \<Longrightarrow> reachable env (perform env w operation)"

text \<open>What one call does to the wallet: it keeps some of the tracked outputs and adds at
  most one; an output added that names a DID either succeeds an active output of that DID
  which is not kept, or names the DID of a transaction the call has made.\<close>

definition stepShape :: "env \<Rightarrow> world \<Rightarrow> world \<Rightarrow> bool" where
  "stepShape env w w' =
     (\<exists>keep news. tracked w' = filter keep (tracked w) @ news
        \<and> actions w \<le> actions w' \<and> length news \<le> 1
        \<and> (\<forall>out \<in> set news. \<forall>d. namesDid d out \<longrightarrow>
              (\<exists>old \<in> set (tracked w). activeFor d old \<and> \<not> keep old)
            \<or> (\<exists>j. actions w \<le> j \<and> j < actions w' \<and> issuedBy env j d)))"

text \<open>A wallet in which every DID has at most one active output and every DID named is
  that of a transaction made earlier.\<close>

definition wellKept :: "env \<Rightarrow> world \<Rightarrow> bool" where
  "wellKept env w =
     ((\<forall>d. length (filter (activeFor d) (tracked w)) \<le> 1)
      \<and> (\<forall>out \<in> set (tracked w). \<forall>d. namesDid d out \<longrightarrow>
            (\<exists>i. i < actions w \<and> issuedBy env i d)))"

text \<open>A DID of an earlier transaction that has no active output left.\<close>

definition retired :: "env \<Rightarrow> string \<Rightarrow> world \<Rightarrow> bool" where
  "retired env d w =
     ((\<forall>out \<in> set (tracked w). \<not> activeFor d out)
      \<and> (\<exists>i. i < actions w \<and> issuedBy env i d))"

text \<open>Every active output of the DID carries the identity code and the issuance txid
  given.\<close>

definition carries :: "string \<Rightarrow> string option \<Rightarrow> string \<Rightarrow> world \<Rightarrow> bool" where
  "carries d code t w =
     (\<forall>out \<in> set (tracked w). \<forall>c.
        customInstructions out = Parsed c \<and> ciDid c = Some d \<and> ciStatus c = Some ''active''
        \<longrightarrow> ciIdentityCode c = code \<and> ciIssuanceTxid c = Some t)"

subsection \<open>An example wallet\<close>

text \<open>Every key is valid, the ledger accepts four transactions and gives them the four
  example ids, and the wallet is empty.\<close>

definition exampleEnv :: env where
  "exampleEnv =
     \<lparr>keyCoordinates = (\<lambda>k. Some (''x'', ''y'')),
      chainAddress = (\<lambda>k. Some ''1ChainKeyAddress''),
      p2pkhLock = (\<lambda>a. ''76a914'' @ a @ ''88ac''),
      trackingScript = Some ''51'',
      getPublicKey = (\<lambda>s. Some ''02ab''),
      stringify = (\<lambda>doc. ''{}''),
      utf8 = asciiBytes,
      random = (\<lambda>n. if n = 0 then ''code'' else ''0f'' ),
      actionResult = (\<lambda>n. if n = 0 then Done txidA else if n = 1 then Done txidB
                            else if n = 2 then Done txidC else if n = 3 then Done txidD
                            else Fails),
      walletAvailable = True,
      didBasket = ''did-chain''\<rparr>"

definition emptyWorld :: world where
  "emptyWorld = \<lparr>tracked = [], actions = 0, draws = 0\<rparr>"

definition exampleCreate :: createOptions where
  "exampleCreate = \<lparr>optIdentityCode = None, optBasket = None, optServices = None\<rparr>"

definition exampleDid :: string where
  "exampleDid = DID_PREFIX @ txidA"

definition exampleUpdate :: updateOptions where
  "exampleUpdate = \<lparr>uoDid = exampleDid, uoServices = None, uoAdditionalKeys = None\<rparr>"

text \<open>The wallet after \<open>createDID\<close>.\<close>

definition createdWorld :: world where
  "createdWorld = snd (createDID exampleEnv emptyWorld exampleCreate)"

subsection \<open>An example of resolution\<close>



text \<open>A resolver service whose universal resolver answers nothing of use, over the indexing
  API of \<open>pendingApi\<close>.\<close>

definition exampleUniversal :: "string \<Rightarrow> string resolverReply" where
  "exampleUniversal d = ReplyOther"

definition exampleService :: "string \<Rightarrow> string resolution outcome option" where
  "exampleService = service_resolve examplePlatform pendingApi 0 exampleUniversal"

section \<open>The codec\<close>

declare readPushes.simps [code]

subsection \<open>A script on which the resolver's parser does not return\<close>

text \<open>After \<open>OP_RETURN\<close>, \<open>OP_PUSHDATA4\<close> with the length bytes \<open>fb ff ff ff\<close>: the
  shift by 24 makes the length \<open>-5\<close>, the bound check passes, the slice is empty, and
  \<open>i += len\<close> puts \<open>i\<close> back on the opcode.\<close>

lemma crafted_bytes:
  "hexToBytes ''6a4efbffffff'' = [Some 106, Some 78, Some 251, Some 255, Some 255, Some 255]"
  by (simp add: parseInt16_def digitVal_def isWhiteSpace_def)

lemma crafted_loop:
  assumes "readPushes dec bytes i segs = Some r"
  shows "\<not> (bytes = [Some 106, Some 78, Some 251, Some 255, Some 255, Some 255] \<and> i = 1)"
  using assms
  apply (rule readPushes.raw_induct[where P = "\<lambda>_ bytes i _ _.
      \<not> (bytes = [Some 106, Some 78, Some 251, Some 255, Some 255, Some 255] \<and> i = 1)", rotated])
  apply (intro notI, elim conjE)
  apply (simp add: js_index_def readLen_def toInt32_def js_slice_def)
  apply blast
  done

lemma crafted_diverges: "resolver_parseOpReturnSegments dec ''6a4efbffffff'' = None"
proof -
  have "readPushes dec [Some 106, Some 78, Some 251, Some 255, Some 255, Some 255] 1 [] = None"
    using crafted_loop[of dec _ 1 "[]"]
    by (cases "readPushes dec [Some 106, Some 78, Some 251, Some 255, Some 255, Some 255] 1 []") auto
  then show ?thesis
    unfolding resolver_parseOpReturnSegments_def crafted_bytes by simp
qed

text \<open>C7 (totality of the decoder), at the script \<open>6a4efbffffff\<close>: the length read is
  \<open>-5\<close> and the resolver's \<open>parseOpReturnSegments\<close> does not return, whatever the text
  decoder is.\<close>

theorem resolver_parse_not_total:
  "readLen (hexToBytes ''6a4efbffffff'') 78 2 = Some (Some (- 5), 6)
   \<and> resolver_parseOpReturnSegments dec ''6a4efbffffff'' = None"
proof -
  have "readLen (hexToBytes ''6a4efbffffff'') 78 2 = Some (Some (- 5), 6)"
    unfolding crafted_bytes by (simp add: readLen_def js_index_def toInt32_def)
  then show ?thesis using crafted_diverges[of dec] by simp
qed

subsection \<open>The hexadecimal text of a script\<close>

lemma hexDigit_cases:
  fixes a :: nat
  assumes "a < 16"
  shows "a \<in> {0, 1, 2, 3, 4, 5, 6, 7, 8, 9, 10, 11, 12, 13, 14, 15}"
  using assms by simp arith

lemma hexDigit_value:
  assumes "a < 16"
  shows "digitVal (hexDigit a) = Some a"
  using hexDigit_cases[OF assms]
  by (auto simp: hexDigit_def digitVal_def)

lemma toHex_Cons: "toHex (b # bs) = hexDigit (unat b div 16) # hexDigit (unat b mod 16) # toHex bs"
  by (simp add: toHex_def)

lemma toHex_Nil: "toHex [] = []"
  by (simp add: toHex_def)

lemma byte_digits:
  fixes b :: byte
  shows "unat b div 16 < 16" "unat b mod 16 < 16"
  using unsigned_less[of b, where 'a = nat] by simp_all

lemma length_toHex: "length (toHex bs) = 2 * length bs"
  by (induction bs) (simp_all add: toHex_Cons toHex_Nil)

lemma digits_toHex: "list_all (\<lambda>c. digitVal c \<noteq> None) (toHex bs)"
proof (induction bs)
  case Nil
  show ?case by (simp add: toHex_Nil)
next
  case (Cons b bs)
  then show ?case
    using hexDigit_value[OF byte_digits(1)[of b]] hexDigit_value[OF byte_digits(2)[of b]]
    by (simp add: toHex_Cons)
qed

lemma hexPairs_toHex: "hexPairs (toHex bs) = bs"
proof (induction bs)
  case Nil
  show ?case by (simp add: toHex_Nil)
next
  case (Cons b bs)
  have "16 * (unat b div 16) + unat b mod 16 = unat b"
    by (rule mult_div_mod_eq)
  then have "(of_nat (16 * (unat b div 16) + unat b mod 16) :: byte) = b"
    by (simp only: of_nat_unat ucast_id)
  then show ?case
    using Cons hexDigit_value[OF byte_digits(1)[of b]] hexDigit_value[OF byte_digits(2)[of b]]
    by (simp add: toHex_Cons)
qed

lemma fromHex_toHex:
  assumes "bs \<noteq> []"
  shows "fromHex (toHex bs) = Some (fromBinary 0 bs)"
proof -
  from assms have "toHex bs \<noteq> []" using length_toHex[of bs] by auto
  moreover have "\<not> odd (length (toHex bs))" by (simp add: length_toHex)
  ultimately show ?thesis
    unfolding fromHex_def using digits_toHex[of bs]
    by (simp only: hexPairs_toHex if_False if_True not_True_eq_False)
qed

subsection \<open>What \<open>parseOpReturnSegments\<close> of modules/did.ts makes of a built script\<close>

text \<open>Every script of \<open>buildOpReturn\<close> begins with the opcodes \<open>OP_FALSE OP_RETURN\<close>.\<close>

lemma buildOpReturn_shape:
  assumes "buildOpReturn enc identityCode payload = Some script"
  shows "\<exists>pushes. script = Chunk 0 None # Chunk 106 None # pushes"
  using assms
  by (auto simp: buildOpReturn_def writeBin_def writeOpCode_def Let_def OP_FALSE_def
        OP_RETURN_def bind_eq_Some_conv split: if_splits)

text \<open>The SDK's parser stops at that \<open>OP_RETURN\<close> and keeps the pushes behind it as the
  data of the \<open>OP_RETURN\<close> chunk, so the script has two chunks and none after the
  \<open>OP_RETURN\<close> chunk.\<close>

lemma fromBinary_built:
  "fromBinary 0 (0 # 106 # rest) = [Chunk 0 None, Chunk 106 (Some rest)]"
  by (simp add: Let_def OP_RETURN_def OP_PUSHDATA1_def OP_PUSHDATA2_def OP_PUSHDATA4_def
        conditional_def OP_IF_def OP_NOTIF_def OP_VERIF_def OP_VERNOTIF_def OP_ENDIF_def)

lemma did_parse_built:
  "did_parseOpReturnSegments dec (toHex (toBinary (Chunk 0 None # Chunk 106 None # pushes))) = []"
proof -
  have bytes: "toBinary (Chunk 0 None # Chunk 106 None # pushes) = 0 # 106 # toBinary pushes"
    by (simp add: toBinary_def)
  have "0 # 106 # toBinary pushes \<noteq> []"
    by simp
  from fromHex_toHex[OF this] have "fromHex (toHex (0 # 106 # toBinary pushes))
          = Some [Chunk 0 None, Chunk 106 (Some (toBinary pushes))]"
    by (simp only: fromBinary_built)
  then show ?thesis
    unfolding bytes did_parseOpReturnSegments_def
    by (simp add: OP_RETURN_def)
qed

lemma example_built:
  "buildOpReturnHex asciiBytes ''abc'' ''1'' = Some ''006a06425356444944036162630131''"
  by code_simp

lemma example_did_parse:
  "did_parseOpReturnSegments asciiDecode ''006a06425356444944036162630131'' = []"
  by code_simp

lemma example_resolver_parse:
  "resolver_parseOpReturnSegments asciiDecode ''006a06425356444944036162630131''
     = Some [''BSVDID'', ''abc'', ''1'']"
  by code_simp

text \<open>C1 (codec round trip): whatever the identity code and the payload are, the decoder of
  modules/did.ts returns the empty list on the script that \<open>buildOpReturn\<close> writes for
  them, and so never the three segments; for the identity code \<open>abc\<close> and the payload
  \<open>1\<close> the script is \<open>006a06425356444944036162630131\<close>.\<close>

theorem built_script_decodes_to_nothing:
  "map_option (did_parseOpReturnSegments dec) (buildOpReturnHex enc identityCode payload)
     = map_option (\<lambda>scriptHex. []) (buildOpReturnHex enc identityCode payload)
   \<and> buildOpReturnHex asciiBytes ''abc'' ''1'' = Some ''006a06425356444944036162630131''
   \<and> did_parseOpReturnSegments asciiDecode ''006a06425356444944036162630131'' = []"
proof -
  have "map_option (did_parseOpReturnSegments dec) (buildOpReturnHex enc identityCode payload)
     = map_option (\<lambda>scriptHex. []) (buildOpReturnHex enc identityCode payload)"
  proof (cases "buildOpReturn enc identityCode payload")
    case None
    then show ?thesis by (simp add: buildOpReturnHex_def)
  next
    case (Some script)
    from buildOpReturn_shape[OF Some] obtain pushes where
      "script = Chunk 0 None # Chunk 106 None # pushes" by blast
    then show ?thesis
      using Some by (simp add: buildOpReturnHex_def did_parse_built)
  qed
  then show ?thesis using example_built example_did_parse by simp
qed

text \<open>Segments come out of the decoder of modules/did.ts only where an \<open>OP_RETURN\<close> stands
  inside a conditional block: in \<open>OP_IF OP_RETURN a OP_ENDIF b OP_RETURN 01 63\<close> the first
  \<open>OP_RETURN\<close> is an ordinary chunk, and the second one takes the bytes \<open>01 63\<close> behind it
  as its data.\<close>

lemma did_parse_examples:
  "did_parseOpReturnSegments asciiDecode ''636a01616801626a0163'' = [''a'', ''b'', [CHR 0x01, CHR ''c'']]
   \<and> did_parseOpReturnSegments asciiDecode ''6a4efbffffff'' = []
   \<and> did_parseOpReturnSegments asciiDecode ''zz6a0161'' = []"
  by code_simp

text \<open>C9 (the two decoders agree), at the script of the identity code \<open>abc\<close> and the
  payload \<open>1\<close>: the decoder of modules/did.ts returns no segment, the byte scan of the
  resolver returns the three.\<close>

theorem decoders_differ_on_built_script:
  "did_parseOpReturnSegments asciiDecode ''006a06425356444944036162630131'' = []
   \<and> resolver_parseOpReturnSegments asciiDecode ''006a06425356444944036162630131''
       = Some [''BSVDID'', ''abc'', ''1'']"
  using example_did_parse example_resolver_parse by simp

text \<open>The two also differ where the byte \<open>0x6a\<close> is the data of a push and no opcode: the
  byte scan starts behind it.\<close>

lemma decoders_differ_inside_push:
  "did_parseOpReturnSegments asciiDecode ''016a0161'' = []
   \<and> resolver_parseOpReturnSegments asciiDecode ''016a0161'' = Some [''a'']"
  by code_simp

section \<open>The crawl\<close>

lemma noteCreated_keeps:
  assumes "noteCreated tx st = Some st2"
  shows "visited st2 = visited st" "currentTxid st2 = currentTxid st"
  using assms by (auto simp: noteCreated_def split: if_splits option.splits)

lemma visited_applyPayload [simp]: "visited (applyPayload pf tx payload st) = visited st"
  by (simp add: applyPayload_def split: option.splits)

subsection \<open>The hop limit and the revisit guard\<close>

text \<open>Each iteration that passes the guard adds its txid to the visited set, once: when
  the loop of modules/did.ts is left, at most \<open>maxHops\<close> transactions have been fetched
  and none twice.\<close>

lemma did_crawl_visited:
  assumes "length (visited st) \<le> hop" "distinct (visited st)" "hop \<le> maxHops"
  shows "length (visited (exitState (did_crawlLoop pf api maxHops hop st))) \<le> maxHops
       \<and> distinct (visited (exitState (did_crawlLoop pf api maxHops hop st)))"
  using assms
proof (induction "maxHops - hop" arbitrary: hop st rule: less_induct)
  case less
  note prems = less.prems
  show ?case
  proof (cases "hop < maxHops \<and> currentTxid st \<notin> set (visited st)")
    case False
    then show ?thesis
      using prems by (subst did_crawlLoop.simps, subst (2) did_crawlLoop.simps) auto
  next
    case guard: True
    let ?st1 = "st\<lparr>visited := visited st @ [currentTxid st]\<rparr>"
    have v1: "length (visited ?st1) \<le> hop + 1" "distinct (visited ?st1)" "hop + 1 \<le> maxHops"
      using guard prems by auto
    show ?thesis
    proof (cases "fetchTx api hop (currentTxid st)")
      case Threw
      then show ?thesis using guard v1
        by (subst did_crawlLoop.simps, subst (2) did_crawlLoop.simps) (auto simp: Let_def)
    next
      case NotOk
      then show ?thesis using guard v1
        by (subst did_crawlLoop.simps, subst (2) did_crawlLoop.simps) (auto simp: Let_def)
    next
      case (Ok tx)
      show ?thesis
      proof (cases "noteCreated tx ?st1")
        case None
        then show ?thesis using guard Ok v1
          by (subst did_crawlLoop.simps, subst (2) did_crawlLoop.simps) (auto simp: Let_def)
      next
        case (Some st2)
        have v2: "visited st2 = visited ?st1"
          using noteCreated_keeps(1)[OF Some] .
        let ?segments = "did_findSegments (textDecode pf) (vout tx)"
        let ?st3 = "if 3 \<le> length ?segments then applyPayload pf tx (?segments ! 2) st2 else st2"
        let ?next = "nextHop api hop (visited ?st3) (currentTxid ?st3) tx"
        show ?thesis
        proof (cases "(3 \<le> length ?segments \<and> ?segments ! 2 = ''3'') \<or> ?next = []")
          case True
          then show ?thesis using guard Ok Some v1 v2
            by (subst did_crawlLoop.simps, subst (2) did_crawlLoop.simps) (auto simp: Let_def)
        next
          case False
          have IH: "length (visited (exitState (did_crawlLoop pf api maxHops (hop + 1)
                       (?st3\<lparr>currentTxid := ?next\<rparr>)))) \<le> maxHops
              \<and> distinct (visited (exitState (did_crawlLoop pf api maxHops (hop + 1)
                       (?st3\<lparr>currentTxid := ?next\<rparr>))))"
            using guard v1 v2 by (intro less.hyps) auto
          have "did_crawlLoop pf api maxHops hop st
                  = did_crawlLoop pf api maxHops (hop + 1) (?st3\<lparr>currentTxid := ?next\<rparr>)"
            using guard Ok Some False by (subst did_crawlLoop.simps) (auto simp: Let_def)
          then show ?thesis using IH by simp
        qed
      qed
    qed
  qed
qed

lemma did_crawl_at_most_100_hops:
  "length (visited (exitState (did_crawlLoop pf api 100 0 (initial txid)))) \<le> 100
   \<and> distinct (visited (exitState (did_crawlLoop pf api 100 0 (initial txid))))"
  by (rule did_crawl_visited) (simp_all add: initial_def)

text \<open>On a chain with a cycle whose scripts parse, the resolver's crawl leaves the loop at
  the revisit and returns the document.\<close>

lemma resolver_cycle_is_left:
  "map_option (map_outcome (\<lambda>r. (didDocument r, metaVersionId r)))
     (resolveViaWoC examplePlatform cycleApi 0 txidA) = Some (Returned (Some ''{}'', Some txidB))"
  by code_simp

text \<open>The crawl of modules/did.ts leaves the same chain too, and has found nothing on it:
  its decoder returns no segment on the scripts \<open>buildOpReturn\<close> writes.\<close>

lemma did_cycle_is_left:
  "resolveViaWhatsOnChain examplePlatform cycleApi txidA = notFound
   \<and> visited (exitState (did_crawlLoop examplePlatform cycleApi 100 0 (initial txidA)))
       = [txidA, txidB]"
  by code_simp

text \<open>C2 (the crawl terminates within the hop limit), at a transaction whose output script
  is \<open>6a4efbffffff\<close>: the resolver's crawl parses that script in its first hop and so
  does not return, whatever the hop limit, the starting txid and the platform are.\<close>

theorem resolveViaWoC_does_not_return:
  "fetchTx craftedApi 0 txid = Ok craftedTx
   \<and> resolveViaWoC pf craftedApi configMaxHops txid = None"
proof -
  have seg: "resolver_findSegments (textDecode pf) (vout craftedTx) = None"
    by (simp add: craftedTx_def crafted_diverges)
  have f: "fetchTx craftedApi 0 txid = Ok craftedTx"
    by (simp add: craftedApi_def)
  have c: "noteCreated craftedTx (st\<lparr>created := None\<rparr>) \<noteq> None" for st :: "'a crawl"
    by (simp add: noteCreated_def timeOf_def craftedTx_def)
  have "resolver_crawlLoop pf craftedApi (if configMaxHops = 0 then 100 else configMaxHops) 0
          (initial txid) = None"
    using c[of "initial txid\<lparr>visited := [txid]\<rparr>"]
    by (subst resolver_crawlLoop.simps) (auto simp: f seg initial_def Let_def split: option.splits)
  then show ?thesis using f by (simp add: resolveViaWoC_def)
qed

subsection \<open>Issuance seen, no document\<close>

text \<open>In the issuance transaction that \<open>createDID\<close> writes, the decoder of modules/did.ts
  finds no segment, so its crawl does not note the issuance; the resolver's crawl does.\<close>

lemma issuance_segments:
  "did_findSegments asciiDecode (vout issuanceTx) = []
   \<and> resolver_findSegments asciiDecode (vout issuanceTx) = Some [''BSVDID'', ''abc'', ''1'']"
  by code_simp

text \<open>C3 (pending, not "not found"), on the chain of the specification's scenario: the
  issuance transaction \<open>aa...a\<close> is served, the spend lookup of its output 0 answers 404
  and the history of its address is empty. The crawl of modules/did.ts returns \<open>notFound\<close>;
  the crawl of the resolver returns the pending status.\<close>

theorem did_crawl_reports_issuance_as_not_found:
  "fetchTx pendingApi 0 txidA = Ok issuanceTx
   \<and> fetchSpend pendingApi 0 txidA = NotOk
   \<and> fetchHistory pendingApi 0 ''1ChainKeyAddress'' = Ok []
   \<and> resolveViaWhatsOnChain examplePlatform pendingApi txidA = notFound
   \<and> map_option (map_outcome resError) (resolveViaWoC examplePlatform pendingApi 0 txidA)
       = Some (Returned (Some ''notYetAvailable''))"
proof -
  have served: "fetchTx pendingApi 0 txidA = Ok issuanceTx"
    "fetchSpend pendingApi 0 txidA = NotOk"
    "fetchHistory pendingApi 0 ''1ChainKeyAddress'' = Ok []"
    by (simp_all add: pendingApi_def)
  have module: "resolveViaWhatsOnChain examplePlatform pendingApi txidA = notFound"
    by code_simp
  have server: "map_option (map_outcome resError)
      (resolveViaWoC examplePlatform pendingApi 0 txidA) = Some (Returned (Some ''notYetAvailable''))"
    by code_simp
  from served module server show ?thesis by simp
qed

text \<open>Both crawls return \<open>notFound\<close> as well where the issuance has been seen and the next
  transaction cannot be fetched.\<close>

lemma missing_next_evaluated:
  "map_option (map_outcome resError) (resolveViaWoC examplePlatform missingNextApi 0 txidA)
     = Some (Returned (Some ''notFound''))"
  by code_simp

section \<open>The issuance and update engine\<close>

subsection \<open>What a call returns and what it leaves in the wallet\<close>


lemma rethrow_Inr: "rethrow k x = (Inr r, w') \<longleftrightarrow> x = (Inr r, w')"
  by (auto simp: rethrow_def split: prod.splits sum.splits exn.splits)

lemma spendChainOutput_success:
  assumes "spendChainOutput env w b currentOutpoint key newOutputs = (Inr t, w')"
  shows "actionResult env (actions w) = Done t
       \<and> currentOutpoint \<in> set (map outpoint (tracked w))
       \<and> w' = w\<lparr>actions := actions w + 1,
                  tracked := filter (\<lambda>out. outpoint out \<noteq> currentOutpoint) (tracked w)
                               @ trackOutputs t 0 newOutputs\<rparr>"
  using assms
  by (auto simp: spendChainOutput_def Let_def split: option.splits if_splits actionOutcome.splits)

lemma updateDID_success:
  assumes "updateDID env w options = (Inr r, w')"
  shows "\<exists>outs chainCI chainOutpoint issuanceTxid t.
      listOutputs env w (didBasket env) = Some outs
    \<and> findActive outs (uoDid options) None = Some (chainCI, chainOutpoint)
    \<and> ciIssuanceTxid chainCI = Some issuanceTxid
    \<and> actionResult env (actions w) = Done t
    \<and> resDid r = uoDid options \<and> resTxid r = issuanceTxid
    \<and> resIdentityCode r = ciIdentityCode chainCI
    \<and> actions w' = actions w + 1
    \<and> tracked w' = filter (\<lambda>out. outpoint out \<noteq> chainOutpoint) (tracked w)
         @ [\<lparr>outpoint = outpointOf t 0, basket = didBasket env,
             customInstructions = Parsed
               \<lparr>ciType = ''did-update'', ciDid = Some (uoDid options),
                ciIdentityCode = ciIdentityCode chainCI,
                ciChainKeyHex = ciChainKeyHex chainCI, ciSubjectKey = ciSubjectKey chainCI,
                ciIssuanceTxid = Some issuanceTxid, ciServices = uoServices options,
                ciAdditionalKeys = uoAdditionalKeys options, ciStatus = Some ''active''\<rparr>\<rparr>]"
  using assms
  unfolding updateDID_def rethrow_Inr updateDID_try_def
  by (auto simp: chainOutput_def dataOutput_def
      split: sum.splits option.splits prod.splits if_splits dest!: spendChainOutput_success)


lemma spendChainOutput_failure:
  assumes "spendChainOutput env w b currentOutpoint key newOutputs = (Inl e, w')"
  shows "tracked w' = tracked w \<and> actions w \<le> actions w'"
  using assms
  by (auto simp: spendChainOutput_def Let_def split: option.splits if_splits actionOutcome.splits)

lemma updateDID_failure:
  assumes "updateDID env w options = (Inl e, w')"
  shows "tracked w' = tracked w \<and> actions w \<le> actions w'"
  using assms
  unfolding updateDID_def updateDID_try_def rethrow_def
  by (auto split: sum.splits option.splits prod.splits if_splits exn.splits
      dest!: spendChainOutput_failure spendChainOutput_success)

lemma deactivateDID_success:
  assumes "deactivateDID env w d = (Inr t, w')"
  shows "\<exists>outs chainCI chainOutpoint identifier.
      DID_parse d = Inr identifier
    \<and> listOutputs env w (didBasket env) = Some outs
    \<and> findActive outs d None = Some (chainCI, chainOutpoint)
    \<and> actionResult env (actions w) = Done t
    \<and> actions w' = actions w + 1
    \<and> tracked w' = filter (\<lambda>out. outpoint out \<noteq> chainOutpoint) (tracked w)
         @ [\<lparr>outpoint = outpointOf t 1, basket = didBasket env,
             customInstructions = Parsed
               \<lparr>ciType = ''did-revocation'', ciDid = Some d,
                ciIdentityCode = ciIdentityCode chainCI, ciChainKeyHex = None,
                ciSubjectKey = ciSubjectKey chainCI, ciIssuanceTxid = ciIssuanceTxid chainCI,
                ciServices = None, ciAdditionalKeys = None,
                ciStatus = Some ''deactivated''\<rparr>\<rparr>]"
  using assms
  unfolding deactivateDID_def rethrow_Inr deactivateDID_try_def
  by (auto simp: dataOutput_def
      split: sum.splits option.splits prod.splits if_splits dest!: spendChainOutput_success)

lemma deactivateDID_failure:
  assumes "deactivateDID env w d = (Inl e, w')"
  shows "tracked w' = tracked w \<and> actions w \<le> actions w'"
  using assms
  unfolding deactivateDID_def deactivateDID_try_def rethrow_def
  by (auto split: sum.splits option.splits prod.splits if_splits exn.splits
      dest!: spendChainOutput_failure spendChainOutput_success)


lemma createAction_cases:
  assumes "createAction env w outs = (x, w1)"
  shows "actions w1 = actions w + 1 \<and> draws w1 = draws w \<and>
     ((\<exists>t. actionResult env (actions w) = Done t \<and> x = Returned t
            \<and> tracked w1 = tracked w @ trackOutputs t 0 outs)
      \<or> (x = Thrown \<and> tracked w1 = tracked w)
      \<or> (x = Returned [] \<and> tracked w1 = tracked w))"
  using assms
  by (auto simp: createAction_def Let_def split: actionOutcome.splits)

lemma draw_facts:
  assumes "draw env w = (s, w1)"
  shows "tracked w1 = tracked w" "actions w1 = actions w"
  using assms by (auto simp: draw_def)

lemma createDID_success:
  assumes "createDID env w options = (Inr r, w')"
  shows "\<exists>issuanceTxid spendTxid c b.
      actionResult env (actions w) = Done issuanceTxid
    \<and> actionResult env (actions w + 1) = Done spendTxid
    \<and> isTxid issuanceTxid
    \<and> resDid r = DID_PREFIX @ issuanceTxid \<and> resTxid r = issuanceTxid
    \<and> actions w' = actions w + 2
    \<and> tracked w' = filter (\<lambda>out. outpoint out \<noteq> outpointOf issuanceTxid 0) (tracked w)
         @ [\<lparr>outpoint = outpointOf spendTxid 0, basket = b, customInstructions = Parsed c\<rparr>]
    \<and> ciDid c = Some (resDid r) \<and> ciIdentityCode c = resIdentityCode r
    \<and> ciIssuanceTxid c = Some (resTxid r) \<and> ciStatus c = Some ''active''"
proof -
  obtain identityCode w1 where d1: "(case optIdentityCode options of None \<Rightarrow> draw env w | Some c \<Rightarrow> (c, w)) = (identityCode, w1)"
    by (cases "(case optIdentityCode options of None \<Rightarrow> draw env w | Some c \<Rightarrow> (c, w))") auto
  obtain chainKeyHex w2 where d2: "draw env w1 = (chainKeyHex, w2)"
    by (cases "draw env w1") auto
  have w2: "tracked w2 = tracked w" "actions w2 = actions w"
    using d1 d2 by (auto simp: draw_def split: option.splits)
  from assms have t: "createDID_try env w options = (Inr r, w')"
    by (simp add: createDID_def rethrow_Inr)
  show ?thesis
    using t w2
    unfolding createDID_try_def d1 d2 Let_def prod.case
    by (auto simp: chainOutput_def dataOutput_def DID_fromTxid_def namesDid_def
        split: sum.splits option.splits prod.splits if_splits outcome.splits
        dest!: spendChainOutput_success createAction_cases)
qed


lemma createDID_failure:
  assumes "createDID env w options = (Inl e, w')"
  shows "actions w \<le> actions w'
       \<and> (\<exists>news. tracked w' = tracked w @ news \<and> length news \<le> 1
              \<and> (\<forall>out \<in> set news. \<forall>d. \<not> namesDid d out))"
proof -
  obtain identityCode w1 where d1: "(case optIdentityCode options of None \<Rightarrow> draw env w | Some c \<Rightarrow> (c, w)) = (identityCode, w1)"
    by (cases "(case optIdentityCode options of None \<Rightarrow> draw env w | Some c \<Rightarrow> (c, w))") auto
  obtain chainKeyHex w2 where d2: "draw env w1 = (chainKeyHex, w2)"
    by (cases "draw env w1") auto
  have w2: "tracked w2 = tracked w" "actions w2 = actions w"
    using d1 d2 by (auto simp: draw_def split: option.splits)
  obtain x where t: "createDID_try env w options = (Inl x, w')"
    using assms
    by (cases "createDID_try env w options")
       (auto simp: createDID_def rethrow_def split: sum.splits exn.splits)
  show ?thesis
    using t w2
    unfolding createDID_try_def d1 d2 Let_def prod.case
    by (auto simp: chainOutput_def dataOutput_def namesDid_def
        split: sum.splits option.splits prod.splits if_splits outcome.splits
        dest!: spendChainOutput_success spendChainOutput_failure createAction_cases)
qed


lemma pubKeyToJwk_ledger:
  "pubKeyToJwk (env\<lparr>actionResult := f\<rparr>) k = pubKeyToJwk env k"
  by (simp add: pubKeyToJwk_def split: option.splits)

lemma addKeys_ledger:
  "addKeys (env\<lparr>actionResult := f\<rparr>) d i ks doc = addKeys env d i ks doc"
  by (induction ks arbitrary: i doc) (simp_all add: pubKeyToJwk_ledger split: option.splits)

lemma buildDocument_ledger:
  "buildDocument (env\<lparr>actionResult := f\<rparr>) t k c s = buildDocument env t k c s"
  by (simp add: buildDocument_def pubKeyToJwk_ledger split: option.splits sum.splits)

lemma spend_other_txid:
  assumes "spendChainOutput env w b p k outs = (Inr t, w1)"
  shows "\<exists>w2. spendChainOutput (env\<lparr>actionResult := (actionResult env)(actions w := Done t')\<rparr>)
                 w b p k outs = (Inr t', w2)"
  using assms
  by (auto simp: spendChainOutput_def listOutputs_def Let_def
      split: option.splits if_splits actionOutcome.splits)

lemma updateDID_path:
  assumes "updateDID env w options = (Inr r, w')"
  shows "\<exists>identifier outs chainCI chainOutpoint chainAddr issuanceTxid doc0 doc documentHex spendTxid.
      DID_parse (uoDid options) = Inr identifier
    \<and> listOutputs env w (didBasket env) = Some outs
    \<and> findActive outs (uoDid options) None = Some (chainCI, chainOutpoint)
    \<and> truthyStr (ciChainKeyHex chainCI)
    \<and> chainAddress env (ofOpt (ciChainKeyHex chainCI)) = Some chainAddr
    \<and> ciIssuanceTxid chainCI = Some issuanceTxid
    \<and> buildDocument env (Some issuanceTxid) (ciSubjectKey chainCI) (Some (uoDid options))
             (uoServices options) = Inr doc0
    \<and> addKeys env (uoDid options) 0
             (case uoAdditionalKeys options of None \<Rightarrow> [] | Some ks \<Rightarrow> ks) doc0 = Inr doc
    \<and> opReturnHex env (ofOpt (ciIdentityCode chainCI)) (stringify env doc) = Some documentHex
    \<and> spendChainOutput env w (didBasket env) chainOutpoint (ofOpt (ciChainKeyHex chainCI))
             [chainOutput env chainAddr (didBasket env)
                \<lparr>ciType = ''did-update'', ciDid = Some (uoDid options),
                 ciIdentityCode = ciIdentityCode chainCI,
                 ciChainKeyHex = ciChainKeyHex chainCI, ciSubjectKey = ciSubjectKey chainCI,
                 ciIssuanceTxid = Some issuanceTxid, ciServices = uoServices options,
                 ciAdditionalKeys = uoAdditionalKeys options, ciStatus = Some ''active''\<rparr>,
              dataOutput documentHex] = (Inr spendTxid, w')
    \<and> r = \<lparr>resDid = uoDid options, resTxid = issuanceTxid,
                resIdentityCode = ciIdentityCode chainCI, resDocument = doc\<rparr>"
  using assms
  unfolding updateDID_def rethrow_Inr updateDID_try_def
  by (auto split: sum.splits option.splits prod.splits if_splits)

lemma update_other_txid:
  assumes "updateDID env w options = (Inr r, w')"
  shows "fst (updateDID (env\<lparr>actionResult := (actionResult env)(actions w := Done t')\<rparr>) w options)
           = Inr r"
proof -
  from updateDID_path[OF assms]
  obtain ident outs chainCI chainOutpoint chainAddr issuanceTxid doc0 doc documentHex spendTxid
    where p: "DID_parse (uoDid options) = Inr ident"
      "listOutputs env w (didBasket env) = Some outs"
      "findActive outs (uoDid options) None = Some (chainCI, chainOutpoint)"
      "truthyStr (ciChainKeyHex chainCI)"
      "chainAddress env (ofOpt (ciChainKeyHex chainCI)) = Some chainAddr"
      "ciIssuanceTxid chainCI = Some issuanceTxid"
      "buildDocument env (Some issuanceTxid) (ciSubjectKey chainCI) (Some (uoDid options))
             (uoServices options) = Inr doc0"
      "addKeys env (uoDid options) 0
             (case uoAdditionalKeys options of None \<Rightarrow> [] | Some ks \<Rightarrow> ks) doc0 = Inr doc"
      "opReturnHex env (ofOpt (ciIdentityCode chainCI)) (stringify env doc) = Some documentHex"
    and s: "spendChainOutput env w (didBasket env) chainOutpoint (ofOpt (ciChainKeyHex chainCI))
             [chainOutput env chainAddr (didBasket env)
                \<lparr>ciType = ''did-update'', ciDid = Some (uoDid options),
                 ciIdentityCode = ciIdentityCode chainCI,
                 ciChainKeyHex = ciChainKeyHex chainCI, ciSubjectKey = ciSubjectKey chainCI,
                 ciIssuanceTxid = Some issuanceTxid, ciServices = uoServices options,
                 ciAdditionalKeys = uoAdditionalKeys options, ciStatus = Some ''active''\<rparr>,
              dataOutput documentHex] = (Inr spendTxid, w')"
    and r: "r = \<lparr>resDid = uoDid options, resTxid = issuanceTxid,
                resIdentityCode = ciIdentityCode chainCI, resDocument = doc\<rparr>"
    by blast
  define env' where "env' = env\<lparr>actionResult := (actionResult env)(actions w := Done t')\<rparr>"
  from spend_other_txid[OF s, of t'] obtain w2 where
    s': "spendChainOutput env' w (didBasket env) chainOutpoint (ofOpt (ciChainKeyHex chainCI))
             [chainOutput env chainAddr (didBasket env)
                \<lparr>ciType = ''did-update'', ciDid = Some (uoDid options),
                 ciIdentityCode = ciIdentityCode chainCI,
                 ciChainKeyHex = ciChainKeyHex chainCI, ciSubjectKey = ciSubjectKey chainCI,
                 ciIssuanceTxid = Some issuanceTxid, ciServices = uoServices options,
                 ciAdditionalKeys = uoAdditionalKeys options, ciStatus = Some ''active''\<rparr>,
              dataOutput documentHex] = (Inr t', w2)"
    unfolding env'_def by blast
  have same: "listOutputs env' = listOutputs env"
    "didBasket env' = didBasket env" "chainAddress env' = chainAddress env"
    "buildDocument env' = buildDocument env" "addKeys env' = addKeys env"
    "opReturnHex env' = opReturnHex env" "stringify env' = stringify env"
    "chainOutput env' = chainOutput env"
    unfolding env'_def
    by (simp_all add: listOutputs_def fun_eq_iff buildDocument_ledger addKeys_ledger
          opReturnHex_def chainOutput_def)
  have "updateDID_try env' w options = (Inr r, w2)"
    unfolding updateDID_try_def same by (simp add: p s' r)
  then show ?thesis
    unfolding env'_def by (simp add: updateDID_def rethrow_def)
qed

text \<open>C10 (the txid that \<open>updateDID\<close> returns): a successful call has found an active
  output for the DID, the txid it returns is the issuance txid stored in that output's
  metadata, and the id of the transaction it has made is not in the result, which is the
  same whatever that id is.\<close>

theorem updateDID_returns_issuance_txid:
  assumes "updateDID env w options = (Inr r, w')"
  shows "\<exists>outs chainCI chainOutpoint newTxid.
      listOutputs env w (didBasket env) = Some outs
    \<and> findActive outs (uoDid options) None = Some (chainCI, chainOutpoint)
    \<and> ciIssuanceTxid chainCI = Some (resTxid r)
    \<and> actionResult env (actions w) = Done newTxid
    \<and> (\<forall>t. fst (updateDID (env\<lparr>actionResult := (actionResult env)(actions w := Done t)\<rparr>) w options)
              = Inr r)"
  using updateDID_success[OF assms] update_other_txid[OF assms]
  by blast

lemma example_update:
  "map_sum id resTxid (fst (updateDID exampleEnv createdWorld exampleUpdate)) = Inr txidA
   \<and> actionResult exampleEnv (actions createdWorld) = Done txidC"
  by code_simp

theorem updateDID_returns_issuance_txid_witness:
  "map_sum id resTxid (fst (updateDID exampleEnv createdWorld exampleUpdate)) = Inr txidA
   \<and> actionResult exampleEnv (actions createdWorld) = Done txidC
   \<and> fst (updateDID (exampleEnv\<lparr>actionResult :=
              (actionResult exampleEnv)(actions createdWorld := Done txidD)\<rparr>)
            createdWorld exampleUpdate)
       = fst (updateDID exampleEnv createdWorld exampleUpdate)"
proof -
  obtain r w' where ok: "updateDID exampleEnv createdWorld exampleUpdate = (Inr r, w')"
    using example_update
    by (cases "updateDID exampleEnv createdWorld exampleUpdate";
        cases "fst (updateDID exampleEnv createdWorld exampleUpdate)") auto
  from updateDID_returns_issuance_txid[OF ok]
  have "fst (updateDID (exampleEnv\<lparr>actionResult :=
              (actionResult exampleEnv)(actions createdWorld := Done txidD)\<rparr>)
            createdWorld exampleUpdate) = Inr r"
    by blast
  then show ?thesis using example_update ok by simp
qed

subsection \<open>One active output for each DID\<close>


lemma findActive_Cons:
  "findActive (a # outs) d found =
     findActive outs d
       (if activeFor d a
        then Some (case customInstructions a of Parsed c \<Rightarrow> (c, outpoint a))
        else found)"
  by (simp add: activeFor_def split: instructions.splits)

lemma findActive_found:
  "findActive outs d found = Some (c, p) \<Longrightarrow>
     found = Some (c, p)
     \<or> (\<exists>out \<in> set outs. customInstructions out = Parsed c \<and> outpoint out = p \<and> activeFor d out)"
proof (induction outs arbitrary: found)
  case Nil
  then show ?case by simp
next
  case (Cons a outs)
  from Cons.prems have
    "findActive outs d (if activeFor d a
        then Some (case customInstructions a of Parsed c \<Rightarrow> (c, outpoint a))
        else found) = Some (c, p)"
    by (simp only: findActive_Cons)
  from Cons.IH[OF this] show ?case
    by (auto simp: activeFor_def split: if_splits instructions.splits)
qed

lemma findActive_none:
  "\<forall>out \<in> set outs. \<not> activeFor d out \<Longrightarrow> findActive outs d found = found"
  by (induction outs arbitrary: found)
     (auto simp: activeFor_def split: instructions.splits)

lemma activeFor_namesDid: "activeFor d out \<Longrightarrow> namesDid d out"
  by (auto simp: activeFor_def namesDid_def split: instructions.splits)

lemma listed_active:
  assumes "listOutputs env w b = Some outs" "findActive outs d None = Some (c, p)"
  shows "\<exists>old \<in> set (tracked w). basket old = b \<and> customInstructions old = Parsed c
            \<and> outpoint old = p \<and> activeFor d old"
  using assms findActive_found[of outs d None c p]
  by (auto simp: listOutputs_def split: if_splits)

lemma stepShape_same:
  assumes "tracked w' = tracked w @ news" "actions w \<le> actions w'" "length news \<le> 1"
    "\<forall>out \<in> set news. \<forall>d. \<not> namesDid d out"
  shows "stepShape env w w'"
  unfolding stepShape_def
  by (rule exI[of _ "\<lambda>_. True"], rule exI[of _ news]) (use assms in auto)

lemma create_step: "stepShape env w (snd (createDID env w options))"
proof (cases "createDID env w options")
  case (Pair x w')
  show ?thesis
  proof (cases x)
    case (Inl e)
    from createDID_failure[OF Pair[unfolded Inl]] show ?thesis
      unfolding Pair snd_conv by (auto intro: stepShape_same)
  next
    case (Inr r)
    from createDID_success[OF Pair[unfolded Inr]]
    obtain issuanceTxid spendTxid c b where
      a: "actionResult env (actions w) = Done issuanceTxid" "isTxid issuanceTxid"
      and d: "resDid r = DID_PREFIX @ issuanceTxid"
      and n: "actions w' = actions w + 2"
      and t: "tracked w' = filter (\<lambda>out. outpoint out \<noteq> outpointOf issuanceTxid 0) (tracked w)
         @ [\<lparr>outpoint = outpointOf spendTxid 0, basket = b, customInstructions = Parsed c\<rparr>]"
      and c: "ciDid c = Some (resDid r)"
      by blast
    from a d have "issuedBy env (actions w) (resDid r)"
      by (auto simp: issuedBy_def)
    then show ?thesis
      unfolding stepShape_def Pair snd_conv
      apply (intro exI[of _ "\<lambda>out. outpoint out \<noteq> outpointOf issuanceTxid 0"])
      apply (intro exI[of _ "[\<lparr>outpoint = outpointOf spendTxid 0, basket = b, customInstructions = Parsed c\<rparr>]"])
      using n t c by (auto simp: namesDid_def intro!: exI[of _ "actions w"])
  qed
qed

lemma update_step: "stepShape env w (snd (updateDID env w options))"
proof (cases "updateDID env w options")
  case (Pair x w')
  show ?thesis
  proof (cases x)
    case (Inl e)
    from updateDID_failure[OF Pair[unfolded Inl]] show ?thesis
      unfolding Pair snd_conv by (auto intro: stepShape_same[where news = "[]"])
  next
    case (Inr r)
    from updateDID_success[OF Pair[unfolded Inr]]
    obtain outs chainCI chainOutpoint t c where
      l: "listOutputs env w (didBasket env) = Some outs"
      and f: "findActive outs (uoDid options) None = Some (chainCI, chainOutpoint)"
      and n: "actions w' = actions w + 1"
      and t: "tracked w' = filter (\<lambda>out. outpoint out \<noteq> chainOutpoint) (tracked w)
         @ [\<lparr>outpoint = outpointOf t 0, basket = didBasket env, customInstructions = Parsed c\<rparr>]"
      and c: "ciDid c = Some (uoDid options)"
      by auto
    from listed_active[OF l f] obtain old where
      old: "old \<in> set (tracked w)" "outpoint old = chainOutpoint" "activeFor (uoDid options) old"
      by blast
    show ?thesis
      unfolding stepShape_def Pair snd_conv
      apply (rule exI[of _ "\<lambda>out. outpoint out \<noteq> chainOutpoint"])
      apply (rule exI[of _ "[\<lparr>outpoint = outpointOf t 0, basket = didBasket env, customInstructions = Parsed c\<rparr>]"])
      using n t c old by (auto simp: namesDid_def)
  qed
qed

lemma deactivate_step: "stepShape env w (snd (deactivateDID env w d))"
proof (cases "deactivateDID env w d")
  case (Pair x w')
  show ?thesis
  proof (cases x)
    case (Inl e)
    from deactivateDID_failure[OF Pair[unfolded Inl]] show ?thesis
      unfolding Pair snd_conv by (auto intro: stepShape_same[where news = "[]"])
  next
    case (Inr r)
    from deactivateDID_success[OF Pair[unfolded Inr]]
    obtain outs chainCI chainOutpoint t c where
      l: "listOutputs env w (didBasket env) = Some outs"
      and f: "findActive outs d None = Some (chainCI, chainOutpoint)"
      and n: "actions w' = actions w + 1"
      and t: "tracked w' = filter (\<lambda>out. outpoint out \<noteq> chainOutpoint) (tracked w)
         @ [\<lparr>outpoint = outpointOf t 1, basket = didBasket env, customInstructions = Parsed c\<rparr>]"
      and c: "ciDid c = Some d"
      by auto
    from listed_active[OF l f] obtain old where
      old: "old \<in> set (tracked w)" "outpoint old = chainOutpoint" "activeFor d old"
      by blast
    show ?thesis
      unfolding stepShape_def Pair snd_conv
      apply (rule exI[of _ "\<lambda>out. outpoint out \<noteq> chainOutpoint"])
      apply (rule exI[of _ "[\<lparr>outpoint = outpointOf t 1, basket = didBasket env, customInstructions = Parsed c\<rparr>]"])
      using n t c old by (auto simp: namesDid_def)
  qed
qed

lemma perform_step: "stepShape env w (perform env w operation)"
  by (cases operation) (simp_all add: create_step update_step deactivate_step)

lemma short_list_unique:
  "length xs \<le> 1 \<Longrightarrow> x \<in> set xs \<Longrightarrow> y \<in> set xs \<Longrightarrow> x = y"
  by (cases xs) auto

lemma filter_filter_le:
  "length (filter P (filter Q xs)) \<le> length (filter P xs)"
  by (induction xs) auto

text \<open>Over a ledger that repeats no id, a DID is that of one transaction only.\<close>

lemma issued_once:
  assumes "ledgerFresh env" "issuedBy env i d" "issuedBy env j d"
  shows "i = j"
  using assms unfolding ledgerFresh_def issuedBy_def by auto

lemma no_active_left:
  assumes fresh: "ledgerFresh env" and kept: "wellKept env w"
    and origin: "(\<exists>old \<in> set (tracked w). activeFor d old \<and> \<not> keep old)
            \<or> (\<exists>j. actions w \<le> j \<and> issuedBy env j d)"
  shows "filter (activeFor d) (filter keep (tracked w)) = []"
proof -
  have "\<not> (activeFor d x \<and> keep x)" if x: "x \<in> set (tracked w)" for x
  proof
    assume ax: "activeFor d x \<and> keep x"
    from origin show False
    proof
      assume "\<exists>old \<in> set (tracked w). activeFor d old \<and> \<not> keep old"
      then obtain old where old: "old \<in> set (tracked w)" "activeFor d old" "\<not> keep old"
        by blast
      have "length (filter (activeFor d) (tracked w)) \<le> 1"
        using kept by (simp add: wellKept_def)
      moreover have "x \<in> set (filter (activeFor d) (tracked w))"
        using x ax by simp
      moreover have "old \<in> set (filter (activeFor d) (tracked w))"
        using old by simp
      ultimately have "x = old" by (rule short_list_unique)
      with ax old show False by simp
    next
      assume "\<exists>j. actions w \<le> j \<and> issuedBy env j d"
      then obtain j where j: "actions w \<le> j" "issuedBy env j d"
        by blast
      from ax have "namesDid d x" by (simp add: activeFor_namesDid)
      with kept x obtain i where i: "i < actions w" "issuedBy env i d"
        unfolding wellKept_def by blast
      from issued_once[OF fresh i(2) j(2)] have "i = j" .
      with i(1) j(1) show False by simp
    qed
  qed
  then show ?thesis by (auto simp: filter_empty_conv)
qed

lemma wellKept_step:
  assumes fresh: "ledgerFresh env" and kept: "wellKept env w" and shape: "stepShape env w w'"
  shows "wellKept env w'"
proof -
  from shape obtain keep news where
    t: "tracked w' = filter keep (tracked w) @ news"
    and n: "actions w \<le> actions w'" and short: "length news \<le> 1"
    and origin: "\<forall>out \<in> set news. \<forall>d. namesDid d out \<longrightarrow>
              (\<exists>old \<in> set (tracked w). activeFor d old \<and> \<not> keep old)
            \<or> (\<exists>j. actions w \<le> j \<and> j < actions w' \<and> issuedBy env j d)"
    unfolding stepShape_def by blast
  have one: "length (filter (activeFor d) (tracked w')) \<le> 1" for d
  proof (cases "filter (activeFor d) news = []")
    case True
    have "length (filter (activeFor d) (filter keep (tracked w)))
            \<le> length (filter (activeFor d) (tracked w))"
      by (rule filter_filter_le)
    moreover have "length (filter (activeFor d) (tracked w)) \<le> 1"
      using kept by (simp add: wellKept_def)
    ultimately show ?thesis using True by (simp add: t)
  next
    case False
    then obtain out where out: "out \<in> set news" "activeFor d out"
      by (auto simp: filter_empty_conv)
    then have "namesDid d out" by (simp add: activeFor_namesDid)
    with origin out(1) have
      "(\<exists>old \<in> set (tracked w). activeFor d old \<and> \<not> keep old)
            \<or> (\<exists>j. actions w \<le> j \<and> issuedBy env j d)"
      by blast
    from no_active_left[OF fresh kept this]
    have "filter (activeFor d) (tracked w') = filter (activeFor d) news"
      by (simp add: t)
    moreover have "length (filter (activeFor d) news) \<le> 1"
      by (rule le_trans[OF length_filter_le short])
    ultimately show ?thesis by simp
  qed
  have issued: "\<exists>i. i < actions w' \<and> issuedBy env i d"
    if out: "out \<in> set (tracked w')" and nm: "namesDid d out" for out d
  proof (cases "out \<in> set news")
    case True
    with origin nm consider
      old where "old \<in> set (tracked w)" "activeFor d old"
      | j where "j < actions w'" "issuedBy env j d"
      by blast
    then show ?thesis
    proof cases
      case 1
      then have "namesDid d old" by (simp add: activeFor_namesDid)
      with kept 1(1) obtain i where "i < actions w" "issuedBy env i d"
        unfolding wellKept_def by blast
      with n show ?thesis by (intro exI[of _ i]) simp
    next
      case 2
      then show ?thesis by blast
    qed
  next
    case False
    with out t have "out \<in> set (tracked w)" by auto
    with kept nm obtain i where "i < actions w" "issuedBy env i d"
      unfolding wellKept_def by blast
    with n show ?thesis by (intro exI[of _ i]) simp
  qed
  show ?thesis
    unfolding wellKept_def using one issued by blast
qed

lemma start_wellKept:
  assumes "\<forall>out \<in> set (tracked w). \<forall>d. \<not> namesDid d out"
  shows "wellKept env w"
proof -
  have "filter (activeFor d) (tracked w) = []" for d
    using assms activeFor_namesDid by (auto simp: filter_empty_conv)
  then show ?thesis
    unfolding wellKept_def using assms by simp
qed

text \<open>Every wallet the module has written to is well kept.\<close>

lemma reachable_wellKept:
  assumes "ledgerFresh env" "reachable env w"
  shows "wellKept env w"
  using assms(2)
proof induction
  case (start w)
  then show ?case by (rule start_wellKept)
next
  case (step w operation)
  from assms(1) step.IH perform_step show ?case by (rule wellKept_step)
qed

text \<open>A DID without an active output stays so, whatever the module is called for.\<close>

lemma retired_step:
  assumes fresh: "ledgerFresh env" and gone: "retired env d w" and shape: "stepShape env w w'"
  shows "retired env d w'"
proof -
  from shape obtain keep news where
    t: "tracked w' = filter keep (tracked w) @ news"
    and n: "actions w \<le> actions w'"
    and origin: "\<forall>out \<in> set news. \<forall>d. namesDid d out \<longrightarrow>
              (\<exists>old \<in> set (tracked w). activeFor d old \<and> \<not> keep old)
            \<or> (\<exists>j. actions w \<le> j \<and> j < actions w' \<and> issuedBy env j d)"
    unfolding stepShape_def by blast
  from gone obtain i where
    quiet: "\<forall>out \<in> set (tracked w). \<not> activeFor d out"
    and i: "i < actions w" "issuedBy env i d"
    unfolding retired_def by blast
  have "\<not> activeFor d out" if out: "out \<in> set (tracked w')" for out
  proof (cases "out \<in> set news")
    case True
    show ?thesis
    proof
      assume a: "activeFor d out"
      then have "namesDid d out" by (rule activeFor_namesDid)
      with origin True quiet obtain j where j: "actions w \<le> j" "issuedBy env j d"
        by blast
      from issued_once[OF fresh i(2) j(2)] have "i = j" .
      with i(1) j(1) show False by simp
    qed
  next
    case False
    with out t have "out \<in> set (tracked w)" by auto
    with quiet show ?thesis by blast
  qed
  moreover have "i < actions w'" using i(1) n by simp
  ultimately show ?thesis
    unfolding retired_def using i(2) by blast
qed

lemma retired_performAll:
  assumes "ledgerFresh env" "retired env d w"
  shows "retired env d (performAll env w ops)"
  using assms(2)
proof (induction ops arbitrary: w)
  case Nil
  then show ?case by (simp add: performAll_def)
next
  case (Cons operation ops)
  from assms(1) Cons.prems perform_step have "retired env d (perform env w operation)"
    by (rule retired_step)
  from Cons.IH[OF this] show ?case by (simp add: performAll_def)
qed

lemma deactivate_retires:
  assumes fresh: "ledgerFresh env" and kept: "wellKept env w"
    and ok: "deactivateDID env w d = (Inr t, w')"
  shows "retired env d w'"
proof -
  from deactivateDID_success[OF ok]
  obtain outs chainCI chainOutpoint t' c where
    l: "listOutputs env w (didBasket env) = Some outs"
    and f: "findActive outs d None = Some (chainCI, chainOutpoint)"
    and n: "actions w' = actions w + 1"
    and t: "tracked w' = filter (\<lambda>out. outpoint out \<noteq> chainOutpoint) (tracked w)
       @ [\<lparr>outpoint = outpointOf t' 1, basket = didBasket env, customInstructions = Parsed c\<rparr>]"
    and c: "ciDid c = Some d" "ciStatus c = Some ''deactivated''"
    by auto
  from listed_active[OF l f] obtain old where
    old: "old \<in> set (tracked w)" "outpoint old = chainOutpoint" "activeFor d old"
    by blast
  then have named: "namesDid d old" by (simp add: activeFor_namesDid)
  have "(\<exists>old \<in> set (tracked w). activeFor d old \<and> \<not> (outpoint old \<noteq> chainOutpoint))
      \<or> (\<exists>j. actions w \<le> j \<and> issuedBy env j d)"
    using old by blast
  from no_active_left[OF fresh kept this]
  have "filter (activeFor d) (tracked w') = []"
    using c by (simp add: t activeFor_def)
  then have quiet: "\<forall>out \<in> set (tracked w'). \<not> activeFor d out"
    by (simp add: filter_empty_conv)
  from kept old(1) named obtain i where "i < actions w" "issuedBy env i d"
    unfolding wellKept_def by blast
  with n quiet show ?thesis
    unfolding retired_def by (intro conjI exI[of _ i]) simp_all
qed

lemma retired_lookup:
  assumes "retired env d w"
  shows "findActive (filter (\<lambda>out. basket out = b) (tracked w)) d None = None"
  using assms by (intro findActive_none) (simp add: retired_def)

lemma retired_update_fails:
  assumes "retired env d w" "walletAvailable env" "DID_parse d = Inr i" "uoDid options = d"
  shows "updateDID env w options = (Inl (NoActiveChainState d), w)"
  using assms retired_lookup[OF assms(1), of "didBasket env"]
  by (simp add: updateDID_def updateDID_try_def rethrow_def listOutputs_def)

lemma retired_deactivate_fails:
  assumes "retired env d w" "walletAvailable env" "DID_parse d = Inr i"
  shows "deactivateDID env w d = (Inl (NoActiveChainState d), w)"
  using assms retired_lookup[OF assms(1), of "didBasket env"]
  by (simp add: deactivateDID_def deactivateDID_try_def rethrow_def listOutputs_def)

text \<open>C5 (deactivation is terminal): in a wallet that only this module has written to,
  over a ledger that gives no transaction id twice, a successful \<open>deactivateDID\<close> leaves
  the lookup of the active output of that DID empty, and after any further calls of the
  module every \<open>updateDID\<close> and \<open>deactivateDID\<close> for that DID throws "No active chain
  state found" and leaves the wallet as it is.\<close>

theorem deactivation_is_terminal:
  assumes "ledgerFresh env" and "reachable env w"
    and "deactivateDID env w d = (Inr t, w')"
  shows "map_option (\<lambda>outs. findActive outs d None) (listOutputs env w' (didBasket env)) = Some None
       \<and> updateDID env (performAll env w' ops) (options\<lparr>uoDid := d\<rparr>)
           = (Inl (NoActiveChainState d), performAll env w' ops)
       \<and> deactivateDID env (performAll env w' ops) d
           = (Inl (NoActiveChainState d), performAll env w' ops)"
proof -
  from deactivateDID_success[OF assms(3)] obtain i where
    parse: "DID_parse d = Inr i" and wallet: "walletAvailable env"
    by (auto simp: listOutputs_def split: if_splits)
  have gone: "retired env d w'"
    using assms(1) reachable_wellKept[OF assms(1,2)] assms(3) by (rule deactivate_retires)
  then have later: "retired env d (performAll env w' ops)"
    using assms(1) by (simp add: retired_performAll)
  have "map_option (\<lambda>outs. findActive outs d None) (listOutputs env w' (didBasket env)) = Some None"
    using wallet retired_lookup[OF gone] by (simp add: listOutputs_def)
  moreover have "updateDID env (performAll env w' ops) (options\<lparr>uoDid := d\<rparr>)
           = (Inl (NoActiveChainState d), performAll env w' ops)"
    using later wallet parse by (rule retired_update_fails) simp
  moreover have "deactivateDID env (performAll env w' ops) d
           = (Inl (NoActiveChainState d), performAll env w' ops)"
    using later wallet parse by (rule retired_deactivate_fails)
  ultimately show ?thesis by blast
qed

lemma example_ledgerFresh: "ledgerFresh exampleEnv"
  unfolding ledgerFresh_def exampleEnv_def
  by (auto simp: txidA_def txidB_def txidC_def txidD_def split: if_splits)

lemma created_reachable: "reachable exampleEnv createdWorld"
proof -
  have "reachable exampleEnv emptyWorld"
    by (rule reachable.start) (simp add: emptyWorld_def)
  then have "reachable exampleEnv (perform exampleEnv emptyWorld (Create exampleCreate))"
    by (rule reachable.step)
  then show ?thesis by (simp add: createdWorld_def)
qed

lemma example_deactivation:
  "fst (deactivateDID exampleEnv createdWorld exampleDid) = Inr txidC"
  by code_simp

lemma example_later_update:
  "exampleUpdate\<lparr>uoDid := exampleDid\<rparr> = exampleUpdate"
  by (simp add: exampleUpdate_def)

theorem deactivation_is_terminal_witness:
  "ledgerFresh exampleEnv \<and> reachable exampleEnv createdWorld
   \<and> fst (deactivateDID exampleEnv createdWorld exampleDid) = Inr txidC
   \<and> fst (updateDID exampleEnv
            (performAll exampleEnv (snd (deactivateDID exampleEnv createdWorld exampleDid))
               [Create exampleCreate])
            exampleUpdate) = Inl (NoActiveChainState exampleDid)
   \<and> fst (deactivateDID exampleEnv
            (performAll exampleEnv (snd (deactivateDID exampleEnv createdWorld exampleDid))
               [Create exampleCreate])
            exampleDid) = Inl (NoActiveChainState exampleDid)"
proof -
  have "deactivateDID exampleEnv createdWorld exampleDid
          = (Inr txidC, snd (deactivateDID exampleEnv createdWorld exampleDid))"
    using example_deactivation by (metis prod.collapse)
  from deactivation_is_terminal[OF example_ledgerFresh created_reachable this,
      of "[Create exampleCreate]" exampleUpdate]
  show ?thesis
    using example_ledgerFresh created_reachable example_deactivation
    by (simp add: example_later_update)
qed

subsection \<open>The identifier through updates\<close>

lemma update_carries:
  assumes inv: "carries d code t w" and d: "uoDid options = d"
    and call: "updateDID env w options = (x, w')"
  shows "carries d code t w'
       \<and> (\<forall>r. x = Inr r \<longrightarrow> resDid r = d \<and> resIdentityCode r = code \<and> resTxid r = t)"
proof (cases x)
  case (Inl e)
  from updateDID_failure[OF call[unfolded Inl]] inv show ?thesis
    using Inl by (simp add: carries_def)
next
  case (Inr r)
  from updateDID_success[OF call[unfolded Inr]]
  obtain outs chainCI chainOutpoint issuanceTxid spendTxid where
    l: "listOutputs env w (didBasket env) = Some outs"
    and f: "findActive outs (uoDid options) None = Some (chainCI, chainOutpoint)"
    and i: "ciIssuanceTxid chainCI = Some issuanceTxid"
    and r: "resDid r = uoDid options" "resTxid r = issuanceTxid"
       "resIdentityCode r = ciIdentityCode chainCI"
    and t: "tracked w' = filter (\<lambda>out. outpoint out \<noteq> chainOutpoint) (tracked w)
         @ [\<lparr>outpoint = outpointOf spendTxid 0, basket = didBasket env,
             customInstructions = Parsed
               \<lparr>ciType = ''did-update'', ciDid = Some (uoDid options),
                ciIdentityCode = ciIdentityCode chainCI,
                ciChainKeyHex = ciChainKeyHex chainCI, ciSubjectKey = ciSubjectKey chainCI,
                ciIssuanceTxid = Some issuanceTxid, ciServices = uoServices options,
                ciAdditionalKeys = uoAdditionalKeys options, ciStatus = Some ''active''\<rparr>\<rparr>]"
    by blast
  from listed_active[OF l f] obtain old where
    old: "old \<in> set (tracked w)" "customInstructions old = Parsed chainCI"
      "activeFor (uoDid options) old"
    by blast
  from old(2,3) have "ciDid chainCI = Some d" "ciStatus chainCI = Some ''active''"
    using d by (simp_all add: activeFor_def)
  with inv old(1,2) have found: "ciIdentityCode chainCI = code" "ciIssuanceTxid chainCI = Some t"
    unfolding carries_def by blast+
  with i have same: "issuanceTxid = t" by simp
  have "carries d code t w'"
    using inv found same unfolding carries_def t by auto
  then show ?thesis using Inr r d found same by simp
qed

lemma updateAll_carries:
  assumes "carries d code t w" "\<forall>options \<in> set updates. uoDid options = d"
    "Inr r \<in> set (fst (updateAll env w updates))"
  shows "resDid r = d \<and> resIdentityCode r = code \<and> resTxid r = t"
  using assms
proof (induction updates arbitrary: w)
  case Nil
  then show ?case by simp
next
  case (Cons options rest)
  obtain x w1 where call: "updateDID env w options = (x, w1)"
    by (cases "updateDID env w options") auto
  obtain rs w2 where later: "updateAll env w1 rest = (rs, w2)"
    by (cases "updateAll env w1 rest") auto
  from Cons.prems(2) have d: "uoDid options = d" by simp
  from update_carries[OF Cons.prems(1) d call] have
    inv: "carries d code t w1"
    and now: "\<forall>r. x = Inr r \<longrightarrow> resDid r = d \<and> resIdentityCode r = code \<and> resTxid r = t"
    by blast+
  from Cons.prems(3) call later have "x = Inr r \<or> Inr r \<in> set (fst (updateAll env w1 rest))"
    by auto
  then show ?case
  proof
    assume "x = Inr r"
    with now show ?thesis by blast
  next
    assume "Inr r \<in> set (fst (updateAll env w1 rest))"
    with Cons.IH[OF inv] Cons.prems(2) show ?thesis by simp
  qed
qed

lemma create_carries:
  assumes fresh: "ledgerFresh env" and kept: "wellKept env w"
    and call: "createDID env w options = (Inr issued, w1)"
  shows "carries (resDid issued) (resIdentityCode issued) (resTxid issued) w1"
proof -
  from createDID_success[OF call]
  obtain issuanceTxid spendTxid c b where
    a: "actionResult env (actions w) = Done issuanceTxid" "isTxid issuanceTxid"
    and d: "resDid issued = DID_PREFIX @ issuanceTxid"
    and t: "tracked w1 = filter (\<lambda>out. outpoint out \<noteq> outpointOf issuanceTxid 0) (tracked w)
         @ [\<lparr>outpoint = outpointOf spendTxid 0, basket = b, customInstructions = Parsed c\<rparr>]"
    and c: "ciIdentityCode c = resIdentityCode issued" "ciIssuanceTxid c = Some (resTxid issued)"
    by blast
  from a d have here: "issuedBy env (actions w) (resDid issued)"
    by (auto simp: issuedBy_def)
  have none: "\<not> namesDid (resDid issued) out" if out: "out \<in> set (tracked w)" for out
  proof
    assume "namesDid (resDid issued) out"
    with kept out obtain i where i: "i < actions w" "issuedBy env i (resDid issued)"
      unfolding wellKept_def by blast
    from issued_once[OF fresh i(2) here] have "i = actions w" .
    with i(1) show False by simp
  qed
  have unnamed: "ciDid c' \<noteq> Some (resDid issued)"
    if "out \<in> set (tracked w)" "customInstructions out = Parsed c'" for out c'
    using none[OF that(1)] that(2) by (simp add: namesDid_def)
  show ?thesis
    unfolding carries_def t using unnamed c by auto
qed

text \<open>C6 (an update preserves the identifier): in a wallet that only this module has
  written to, over a ledger that gives no transaction id twice, every successful
  \<open>updateDID\<close> in a sequence of calls for a DID that \<open>createDID\<close> has returned gives back
  the DID, the identity code and the txid that \<open>createDID\<close> returned; of the result only
  the document is new.\<close>

theorem updates_preserve_identifier:
  assumes "ledgerFresh env" and "reachable env w"
    and "createDID env w createOptions = (Inr issued, w1)"
    and "\<forall>options \<in> set updates. uoDid options = resDid issued"
    and "Inr r \<in> set (fst (updateAll env w1 updates))"
  shows "resDid r = resDid issued \<and> resIdentityCode r = resIdentityCode issued
       \<and> resTxid r = resTxid issued"
proof -
  have "carries (resDid issued) (resIdentityCode issued) (resTxid issued) w1"
    using assms(1) reachable_wellKept[OF assms(1,2)] assms(3) by (rule create_carries)
  then show ?thesis using assms(4,5) by (rule updateAll_carries)
qed

lemma empty_reachable: "reachable exampleEnv emptyWorld"
  by (rule reachable.start) (simp add: emptyWorld_def)

lemma example_creation:
  "map_sum id (\<lambda>r. (resDid r, resIdentityCode r, resTxid r))
     (fst (createDID exampleEnv emptyWorld exampleCreate)) = Inr (exampleDid, Some ''code'', txidA)"
  by code_simp

lemma example_updates:
  "map isl (fst (updateAll exampleEnv createdWorld [exampleUpdate, exampleUpdate])) = [False, False]"
  by code_simp

theorem updates_preserve_identifier_witness:
  "ledgerFresh exampleEnv \<and> reachable exampleEnv emptyWorld
   \<and> map_sum id (\<lambda>r. (resDid r, resIdentityCode r, resTxid r))
       (fst (createDID exampleEnv emptyWorld exampleCreate)) = Inr (exampleDid, Some ''code'', txidA)
   \<and> map (map_sum id (\<lambda>r. (resDid r, resIdentityCode r, resTxid r)))
       (fst (updateAll exampleEnv createdWorld [exampleUpdate, exampleUpdate]))
      = [Inr (exampleDid, Some ''code'', txidA), Inr (exampleDid, Some ''code'', txidA)]"
proof -
  obtain issued where made: "createDID exampleEnv emptyWorld exampleCreate = (Inr issued, createdWorld)"
    and fields: "resDid issued = exampleDid" "resIdentityCode issued = Some ''code''"
      "resTxid issued = txidA"
    using example_creation
    by (cases "createDID exampleEnv emptyWorld exampleCreate";
        cases "fst (createDID exampleEnv emptyWorld exampleCreate)")
       (auto simp: createdWorld_def)
  obtain r1 r2 where results:
    "fst (updateAll exampleEnv createdWorld [exampleUpdate, exampleUpdate]) = [Inr r1, Inr r2]"
    using example_updates
    by (cases "fst (updateAll exampleEnv createdWorld [exampleUpdate, exampleUpdate])")
       (auto simp: isl_def neq_Nil_conv, metis sum.exhaust_sel sum.disc(1) isl_def)
  have same: "\<forall>options \<in> set [exampleUpdate, exampleUpdate]. uoDid options = resDid issued"
    using fields(1) by (simp add: exampleUpdate_def)
  have "resDid r = resDid issued \<and> resIdentityCode r = resIdentityCode issued
       \<and> resTxid r = resTxid issued"
    if "Inr r \<in> set (fst (updateAll exampleEnv createdWorld [exampleUpdate, exampleUpdate]))" for r
    using example_ledgerFresh empty_reachable made same that
    by (rule updates_preserve_identifier)
  from this[of r1] this[of r2] show ?thesis
    using example_ledgerFresh empty_reachable example_creation results fields by simp
qed

section \<open>Resolution\<close>

subsection \<open>The local tier\<close>












subsection \<open>The HTTP handler\<close>

text \<open>C8 (the status of the handler), as amended: a request whose \<open>did\<close> parameter is
  absent or empty is answered with 400; for any other, where the resolver returns or
  throws, a thrown exception gives 502 with an \<open>internalError\<close> body, the error
  \<open>notFound\<close> gives 404, the error \<open>internalError\<close> gives 502, and everything else 200,
  the body being the resolver's result.\<close>

theorem handler_GET_status:
  assumes "d \<noteq> []" and "resolve d = Some outcome"
  shows "handler_GET resolve None = Some \<lparr>hrStatus = 400, hrBody = ErrorBody missingParameter\<rparr>
       \<and> handler_GET resolve (Some []) = Some \<lparr>hrStatus = 400, hrBody = ErrorBody missingParameter\<rparr>
       \<and> handler_GET resolve (Some d) =
           Some (case outcome of
                   Thrown \<Rightarrow> \<lparr>hrStatus = 502, hrBody = ResultBody handlerError\<rparr>
                 | Returned result \<Rightarrow>
                     \<lparr>hrStatus = (if resError result = Some ''notFound'' then 404
                                  else if resError result = Some ''internalError'' then 502
                                  else 200),
                      hrBody = ResultBody result\<rparr>)
       \<and> resError (handlerError :: 'd resolution) = Some ''internalError''"
  using assms
  by (cases outcome) (simp_all add: handler_GET_def handlerError_def)

lemma example_service:
  "map_option (map_outcome resError) (exampleService exampleDid)
     = Some (Returned (Some ''notYetAvailable''))"
  by code_simp

theorem handler_GET_status_witness:
  "map_option (map_outcome resError) (exampleService exampleDid)
     = Some (Returned (Some ''notYetAvailable''))
   \<and> map_option hrStatus (handler_GET exampleService (Some exampleDid)) = Some 200"
proof -
  obtain result where r: "exampleService exampleDid = Some (Returned result)"
    and e: "resError result = Some ''notYetAvailable''"
    using example_service
    by (cases "exampleService exampleDid"; cases "the (exampleService exampleDid)") auto
  have "exampleDid \<noteq> []"
    by (simp add: exampleDid_def DID_PREFIX_def)
  from handler_GET_status[of exampleDid exampleService "Returned result", OF this r]
  have "handler_GET exampleService (Some exampleDid) =
           Some (case Returned result of
                   Thrown \<Rightarrow> \<lparr>hrStatus = 502, hrBody = ResultBody handlerError\<rparr>
                 | Returned result \<Rightarrow>
                     \<lparr>hrStatus = (if resError result = Some ''notFound'' then 404
                                  else if resError result = Some ''internalError'' then 502
                                  else 200),
                      hrBody = ResultBody result\<rparr>)"
    by (elim conjE)
  then show ?thesis
    using example_service e by simp
qed

text \<open>C8 as stated fails for a request whose \<open>did\<close> parameter is present and empty: the
  resolver would return \<open>notFound\<close> for it, and the handler answers 400 without asking.\<close>

theorem empty_parameter_counterexample:
  "exampleService [] = Some (Returned couldNotResolve)
   \<and> resError (couldNotResolve :: string resolution) = Some ''notFound''
   \<and> handler_GET exampleService (Some [])
       = Some \<lparr>hrStatus = 400, hrBody = ErrorBody missingParameter\<rparr>"
  by code_simp

end
